theory Spec2Isabelle
  imports Complex_Main "HOL-Library.Word"
begin

section \<open>The data model of backend/app/models.py\<close>

text \<open>
  The module is a list of class declarations for SQLModel (pydantic models, some of them
  also SQLAlchemy tables). The declarations are embedded as data, one constant per class,
  field by field as the source writes them; what the libraries do with a declaration
  (filling defaults, validating, cascading a delete, stamping a column on update) is a
  function over that data.
\<close>

subsection \<open>Enums for status and types\<close>

datatype OrderStatus = PENDING | CONFIRMED | IN_TRANSIT | DELIVERED | CANCELLED

datatype DeliveryStatus = D_ASSIGNED | D_IN_TRANSIT | D_DELIVERED | D_CANCELLED

datatype PaymentStatus = P_PENDING | P_SUCCESSFUL | P_FAILED

datatype PaymentMethod = CREDIT_CARD | PAYPAL | CRYPTO | BANK_TRANSFER

datatype VehicleType = BIKE | CAR | TRUCK | AIRPLANE | SHIP

text \<open>The enum classes, and a member of any of them.\<close>

datatype enum_class = OrderStatus | DeliveryStatus | PaymentStatus | PaymentMethod | VehicleType

datatype enum_member =
    EOrderStatus OrderStatus
  | EDeliveryStatus DeliveryStatus
  | EPaymentStatus PaymentStatus
  | EPaymentMethod PaymentMethod
  | EVehicleType VehicleType

text \<open>The members of each class in declaration order, and the string value of each.\<close>

fun members :: "enum_class \<Rightarrow> enum_member list" where
  "members OrderStatus =
     map EOrderStatus [PENDING, CONFIRMED, IN_TRANSIT, DELIVERED, CANCELLED]"
| "members DeliveryStatus =
     map EDeliveryStatus [D_ASSIGNED, D_IN_TRANSIT, D_DELIVERED, D_CANCELLED]"
| "members PaymentStatus =
     map EPaymentStatus [P_PENDING, P_SUCCESSFUL, P_FAILED]"
| "members PaymentMethod =
     map EPaymentMethod [CREDIT_CARD, PAYPAL, CRYPTO, BANK_TRANSFER]"
| "members VehicleType =
     map EVehicleType [BIKE, CAR, TRUCK, AIRPLANE, SHIP]"

fun member_value :: "enum_member \<Rightarrow> string" where
  "member_value (EOrderStatus PENDING) = ''pending''"
| "member_value (EOrderStatus CONFIRMED) = ''confirmed''"
| "member_value (EOrderStatus IN_TRANSIT) = ''in_transit''"
| "member_value (EOrderStatus DELIVERED) = ''delivered''"
| "member_value (EOrderStatus CANCELLED) = ''cancelled''"
| "member_value (EDeliveryStatus D_ASSIGNED) = ''assigned''"
| "member_value (EDeliveryStatus D_IN_TRANSIT) = ''in_transit''"
| "member_value (EDeliveryStatus D_DELIVERED) = ''delivered''"
| "member_value (EDeliveryStatus D_CANCELLED) = ''cancelled''"
| "member_value (EPaymentStatus P_PENDING) = ''pending''"
| "member_value (EPaymentStatus P_SUCCESSFUL) = ''successful''"
| "member_value (EPaymentStatus P_FAILED) = ''failed''"
| "member_value (EPaymentMethod CREDIT_CARD) = ''credit_card''"
| "member_value (EPaymentMethod PAYPAL) = ''paypal''"
| "member_value (EPaymentMethod CRYPTO) = ''crypto''"
| "member_value (EPaymentMethod BANK_TRANSFER) = ''bank_transfer''"
| "member_value (EVehicleType BIKE) = ''bike''"
| "member_value (EVehicleType CAR) = ''car''"
| "member_value (EVehicleType TRUCK) = ''truck''"
| "member_value (EVehicleType AIRPLANE) = ''airplane''"
| "member_value (EVehicleType SHIP) = ''ship''"

fun member_class :: "enum_member \<Rightarrow> enum_class" where
  "member_class (EOrderStatus _) = OrderStatus"
| "member_class (EDeliveryStatus _) = DeliveryStatus"
| "member_class (EPaymentStatus _) = PaymentStatus"
| "member_class (EPaymentMethod _) = PaymentMethod"
| "member_class (EVehicleType _) = VehicleType"

text \<open>
  Looking a member up by value, as calling the enum class on a string does: the first
  member whose value is the string, and none (Python's ValueError) when there is no such
  member.
\<close>

definition enum_lookup :: "enum_class \<Rightarrow> string \<Rightarrow> enum_member option" where
  "enum_lookup c s = find (\<lambda>m. member_value m = s) (members c)"

subsection \<open>Values and field declarations\<close>

type_synonym uuid = "128 word"

text \<open>A naive datetime, as the microseconds since the epoch.\<close>

type_synonym datetime = int

text \<open>
  The Python values a field can hold. A string is the list of its characters and its
  length their number, as \<open>len\<close> counts them. A float is taken as the real number it
  denotes: infinities and NaN are outside the model.
\<close>

datatype pyval =
    VNone
  | VStr string
  | VInt int
  | VBool bool
  | VFloat real
  | VUUID uuid
  | VDatetime datetime
  | VEnum enum_member

datatype pytype = TStr | TEmailStr | TInt | TFloat | TBool | TUUID | TDatetime | TEnum enum_class

datatype factory = uuid4 | utcnow

datatype default_spec = Undefined | Default pyval | DefaultFactory factory

text \<open>
  What a field declaration says: the annotation (with \<open>optional\<close> for \<open>| None\<close>) and
  the arguments of \<open>Field(...)\<close>. \<open>onupdate\<close> is the \<open>onupdate\<close> entry of
  \<open>sa_column_kwargs\<close>.
\<close>

record FieldInfo =
  annotation :: pytype
  optional :: bool
  default :: default_spec
  min_length :: "nat option"
  max_length :: "nat option"
  ge :: "int option"
  le :: "int option"
  primary_key :: bool
  foreign_key :: "string option"
  unique :: bool
  index :: bool
  nullable :: "bool option"
  onupdate :: "factory option"

text \<open>A field of the given annotation with no argument: required, unconstrained.\<close>

definition Field :: "pytype \<Rightarrow> FieldInfo" where
  "Field t = \<lparr>annotation = t, optional = False, default = Undefined,
     min_length = None, max_length = None, ge = None, le = None,
     primary_key = False, foreign_key = None, unique = False, index = False,
     nullable = None, onupdate = None\<rparr>"

text \<open>
  A relationship attribute: the class it points to, whether the annotation is a list,
  and the arguments of \<open>Relationship(...)\<close> (\<open>cascade\<close> and \<open>foreign_keys\<close> are the
  entries of \<open>sa_relationship_kwargs\<close>; \<open>foreign_keys\<close> holds the column's name).
\<close>

record RelationshipInfo =
  target :: string
  uselist :: bool
  back_populates :: "string option"
  cascade :: "string option"
  foreign_keys :: "string option"

definition Relationship :: "string \<Rightarrow> bool \<Rightarrow> RelationshipInfo" where
  "Relationship t l = \<lparr>target = t, uselist = l, back_populates = None,
     cascade = None, foreign_keys = None\<rparr>"

text \<open>
  A class: its name, the classes it is declared a subclass of, whether it is declared
  with \<open>table=True\<close>, its fields in the order pydantic keeps them, and its
  relationship attributes.
\<close>

record model =
  cls_name :: string
  bases :: "string list"
  table :: bool
  model_fields :: "(string \<times> FieldInfo) list"
  relationships :: "(string \<times> RelationshipInfo) list"

text \<open>
  A subclass keeps the fields of its base in their place, a field it declares again
  replacing the inherited declaration, and appends the fields it adds.
\<close>

definition inherit ::
  "(string \<times> FieldInfo) list \<Rightarrow> (string \<times> FieldInfo) list \<Rightarrow> (string \<times> FieldInfo) list" where
  "inherit base own =
     map (\<lambda>(n, f). (n, case map_of own n of Some f' \<Rightarrow> f' | None \<Rightarrow> f)) base
     @ filter (\<lambda>(n, f). map_of base n = None) own"

subsection \<open>The classes\<close>

text \<open>Shared properties of a user.\<close>

definition UserBase :: model where
  "UserBase = \<lparr>cls_name = ''UserBase'', bases = [''SQLModel''], table = False, model_fields = [
      (''email'', (Field TEmailStr)\<lparr>unique := True, index := True, max_length := Some 255\<rparr>),
      (''is_active'', (Field TBool)\<lparr>default := Default (VBool True)\<rparr>),
      (''is_superuser'', (Field TBool)\<lparr>default := Default (VBool False)\<rparr>),
      (''full_name'', (Field TStr)\<lparr>optional := True, default := Default VNone,
          max_length := Some 255\<rparr>)],
    relationships = []\<rparr>"

text \<open>Properties to receive via the API on creation.\<close>

definition UserCreate :: model where
  "UserCreate = \<lparr>cls_name = ''UserCreate'', bases = [''UserBase''], table = False,
    model_fields = inherit (model_fields UserBase) [
      (''password'', (Field TStr)\<lparr>min_length := Some 8, max_length := Some 40\<rparr>)],
    relationships = []\<rparr>"

definition UserRegister :: model where
  "UserRegister = \<lparr>cls_name = ''UserRegister'', bases = [''SQLModel''], table = False, model_fields = [
      (''email'', (Field TEmailStr)\<lparr>max_length := Some 255\<rparr>),
      (''password'', (Field TStr)\<lparr>min_length := Some 8, max_length := Some 40\<rparr>),
      (''full_name'', (Field TStr)\<lparr>optional := True, default := Default VNone,
          max_length := Some 255\<rparr>)],
    relationships = []\<rparr>"

text \<open>Properties to receive via the API on update, all optional.\<close>

definition UserUpdate :: model where
  "UserUpdate = \<lparr>cls_name = ''UserUpdate'', bases = [''UserBase''], table = False,
    model_fields = inherit (model_fields UserBase) [
      (''email'', (Field TEmailStr)\<lparr>optional := True, default := Default VNone,
          max_length := Some 255\<rparr>),
      (''password'', (Field TStr)\<lparr>optional := True, default := Default VNone,
          min_length := Some 8, max_length := Some 40\<rparr>)],
    relationships = []\<rparr>"

definition UserUpdateMe :: model where
  "UserUpdateMe = \<lparr>cls_name = ''UserUpdateMe'', bases = [''SQLModel''], table = False, model_fields = [
      (''full_name'', (Field TStr)\<lparr>optional := True, default := Default VNone,
          max_length := Some 255\<rparr>),
      (''email'', (Field TEmailStr)\<lparr>optional := True, default := Default VNone,
          max_length := Some 255\<rparr>)],
    relationships = []\<rparr>"

definition UpdatePassword :: model where
  "UpdatePassword = \<lparr>cls_name = ''UpdatePassword'', bases = [''SQLModel''], table = False, model_fields = [
      (''current_password'', (Field TStr)\<lparr>min_length := Some 8, max_length := Some 40\<rparr>),
      (''new_password'', (Field TStr)\<lparr>min_length := Some 8, max_length := Some 40\<rparr>)],
    relationships = []\<rparr>"

text \<open>Database model of a user.\<close>

definition User :: model where
  "User = \<lparr>cls_name = ''User'', bases = [''UserBase''], table = True,
    model_fields = inherit (model_fields UserBase) [
      (''id'', (Field TUUID)\<lparr>default := DefaultFactory uuid4, primary_key := True\<rparr>),
      (''hashed_password'', Field TStr)],
    relationships = [
      (''items'', (Relationship ''Item'' True)\<lparr>back_populates := Some ''owner'',
          cascade := Some ''delete''\<rparr>)]\<rparr>"

text \<open>Properties to return via the API; the id is always required.\<close>

definition UserPublic :: model where
  "UserPublic = \<lparr>cls_name = ''UserPublic'', bases = [''UserBase''], table = False,
    model_fields = inherit (model_fields UserBase) [
      (''id'', Field TUUID)],
    relationships = []\<rparr>"

text \<open>Shared properties of an item.\<close>

definition ItemBase :: model where
  "ItemBase = \<lparr>cls_name = ''ItemBase'', bases = [''SQLModel''], table = False, model_fields = [
      (''title'', (Field TStr)\<lparr>min_length := Some 1, max_length := Some 255\<rparr>),
      (''description'', (Field TStr)\<lparr>optional := True, default := Default VNone,
          max_length := Some 255\<rparr>)],
    relationships = []\<rparr>"

text \<open>Properties to receive on item creation.\<close>

definition ItemCreate :: model where
  "ItemCreate = \<lparr>cls_name = ''ItemCreate'', bases = [''ItemBase''], table = False,
    model_fields = inherit (model_fields ItemBase) [],
    relationships = []\<rparr>"

text \<open>Properties to receive on item update.\<close>

definition ItemUpdate :: model where
  "ItemUpdate = \<lparr>cls_name = ''ItemUpdate'', bases = [''ItemBase''], table = False,
    model_fields = inherit (model_fields ItemBase) [
      (''title'', (Field TStr)\<lparr>optional := True, default := Default VNone,
          min_length := Some 1, max_length := Some 255\<rparr>)],
    relationships = []\<rparr>"

text \<open>Database model of an item.\<close>

definition Item :: model where
  "Item = \<lparr>cls_name = ''Item'', bases = [''ItemBase''], table = True,
    model_fields = inherit (model_fields ItemBase) [
      (''id'', (Field TUUID)\<lparr>default := DefaultFactory uuid4, primary_key := True\<rparr>),
      (''title'', (Field TStr)\<lparr>max_length := Some 255\<rparr>),
      (''owner_id'', (Field TUUID)\<lparr>foreign_key := Some ''user.id'', nullable := Some False\<rparr>)],
    relationships = [
      (''owner'', (Relationship ''User'' False)\<lparr>back_populates := Some ''items''\<rparr>)]\<rparr>"

definition ItemPublic :: model where
  "ItemPublic = \<lparr>cls_name = ''ItemPublic'', bases = [''ItemBase''], table = False,
    model_fields = inherit (model_fields ItemBase) [
      (''id'', Field TUUID),
      (''owner_id'', Field TUUID)],
    relationships = []\<rparr>"

definition Address :: model where
  "Address = \<lparr>cls_name = ''Address'', bases = [''SQLModel''], table = True, model_fields = [
      (''id'', (Field TUUID)\<lparr>default := DefaultFactory uuid4, primary_key := True\<rparr>),
      (''street'', (Field TStr)\<lparr>max_length := Some 255\<rparr>),
      (''city'', (Field TStr)\<lparr>max_length := Some 100\<rparr>),
      (''state'', (Field TStr)\<lparr>optional := True, default := Default VNone,
          max_length := Some 100\<rparr>),
      (''postal_code'', (Field TStr)\<lparr>max_length := Some 20\<rparr>),
      (''country'', (Field TStr)\<lparr>max_length := Some 100\<rparr>),
      (''latitude'', (Field TFloat)\<lparr>optional := True, default := Default VNone\<rparr>),
      (''longitude'', (Field TFloat)\<lparr>optional := True, default := Default VNone\<rparr>)],
    relationships = []\<rparr>"

definition DeliveryCompany :: model where
  "DeliveryCompany = \<lparr>cls_name = ''DeliveryCompany'', bases = [''SQLModel''], table = True, model_fields = [
      (''id'', (Field TUUID)\<lparr>default := DefaultFactory uuid4, primary_key := True\<rparr>),
      (''name'', (Field TStr)\<lparr>max_length := Some 255\<rparr>),
      (''email'', (Field TEmailStr)\<lparr>max_length := Some 255\<rparr>),
      (''phone_number'', (Field TStr)\<lparr>max_length := Some 20\<rparr>),
      (''headquarters_address_id'', (Field TUUID)\<lparr>foreign_key := Some ''address.id''\<rparr>),
      (''created_at'', (Field TDatetime)\<lparr>default := DefaultFactory utcnow\<rparr>),
      (''updated_at'', (Field TDatetime)\<lparr>default := DefaultFactory utcnow,
          onupdate := Some utcnow\<rparr>)],
    relationships = [
      (''headquarters_address'', Relationship ''Address'' False)]\<rparr>"

definition PackageItem :: model where
  "PackageItem = \<lparr>cls_name = ''PackageItem'', bases = [''SQLModel''], table = True, model_fields = [
      (''id'', (Field TUUID)\<lparr>default := DefaultFactory uuid4, primary_key := True\<rparr>),
      (''order_id'', (Field TUUID)\<lparr>foreign_key := Some ''order.id''\<rparr>),
      (''description'', (Field TStr)\<lparr>max_length := Some 255\<rparr>),
      (''weight'', Field TFloat),
      (''dimensions'', (Field TStr)\<lparr>max_length := Some 50\<rparr>),
      (''quantity'', Field TInt)],
    relationships = [
      (''order'', (Relationship ''Order'' False)\<lparr>back_populates := Some ''package_items'',
          cascade := Some ''delete''\<rparr>)]\<rparr>"

definition Order :: model where
  "Order = \<lparr>cls_name = ''Order'', bases = [''SQLModel''], table = True, model_fields = [
      (''id'', (Field TUUID)\<lparr>default := DefaultFactory uuid4, primary_key := True\<rparr>),
      (''customer_name'', (Field TStr)\<lparr>max_length := Some 255\<rparr>),
      (''customer_email'', (Field TEmailStr)\<lparr>max_length := Some 255\<rparr>),
      (''sender_address_id'', (Field TUUID)\<lparr>foreign_key := Some ''address.id''\<rparr>),
      (''recipient_address_id'', (Field TUUID)\<lparr>foreign_key := Some ''address.id''\<rparr>),
      (''status'', Field (TEnum OrderStatus)),
      (''total_weight'', (Field TFloat)\<lparr>optional := True, default := Default VNone\<rparr>),
      (''total_price'', Field TFloat),
      (''created_at'', (Field TDatetime)\<lparr>default := DefaultFactory utcnow\<rparr>),
      (''updated_at'', (Field TDatetime)\<lparr>default := DefaultFactory utcnow,
          onupdate := Some utcnow\<rparr>)],
    relationships = [
      (''sender_address'', (Relationship ''Address'' False)\<lparr>
          foreign_keys := Some ''sender_address_id''\<rparr>),
      (''recipient_address'', (Relationship ''Address'' False)\<lparr>
          foreign_keys := Some ''recipient_address_id''\<rparr>),
      (''package_items'', (Relationship ''PackageItem'' True)\<lparr>
          back_populates := Some ''order'', cascade := Some ''delete''\<rparr>)]\<rparr>"

definition Vehicle :: model where
  "Vehicle = \<lparr>cls_name = ''Vehicle'', bases = [''SQLModel''], table = True, model_fields = [
      (''id'', (Field TUUID)\<lparr>default := DefaultFactory uuid4, primary_key := True\<rparr>),
      (''type'', Field (TEnum VehicleType)),
      (''registration_number'', (Field TStr)\<lparr>max_length := Some 50\<rparr>),
      (''capacity'', Field TFloat),
      (''current_location'', (Field TStr)\<lparr>optional := True, default := Default VNone,
          max_length := Some 255\<rparr>),
      (''is_available'', (Field TBool)\<lparr>default := Default (VBool True)\<rparr>),
      (''created_at'', (Field TDatetime)\<lparr>default := DefaultFactory utcnow\<rparr>),
      (''updated_at'', (Field TDatetime)\<lparr>default := DefaultFactory utcnow,
          onupdate := Some utcnow\<rparr>)],
    relationships = []\<rparr>"

definition Driver :: model where
  "Driver = \<lparr>cls_name = ''Driver'', bases = [''SQLModel''], table = True, model_fields = [
      (''id'', (Field TUUID)\<lparr>default := DefaultFactory uuid4, primary_key := True\<rparr>),
      (''name'', (Field TStr)\<lparr>max_length := Some 255\<rparr>),
      (''phone_number'', (Field TStr)\<lparr>max_length := Some 20\<rparr>),
      (''license_number'', (Field TStr)\<lparr>max_length := Some 50\<rparr>),
      (''assigned_vehicle_id'', (Field TUUID)\<lparr>optional := True, default := Default VNone,
          foreign_key := Some ''vehicle.id''\<rparr>),
      (''availability'', (Field TBool)\<lparr>default := Default (VBool True)\<rparr>),
      (''current_location'', (Field TStr)\<lparr>optional := True, default := Default VNone,
          max_length := Some 255\<rparr>),
      (''created_at'', (Field TDatetime)\<lparr>default := DefaultFactory utcnow\<rparr>),
      (''updated_at'', (Field TDatetime)\<lparr>default := DefaultFactory utcnow,
          onupdate := Some utcnow\<rparr>)],
    relationships = [
      (''assigned_vehicle'', Relationship ''Vehicle'' False)]\<rparr>"

definition Delivery :: model where
  "Delivery = \<lparr>cls_name = ''Delivery'', bases = [''SQLModel''], table = True, model_fields = [
      (''id'', (Field TUUID)\<lparr>default := DefaultFactory uuid4, primary_key := True\<rparr>),
      (''order_id'', (Field TUUID)\<lparr>foreign_key := Some ''order.id''\<rparr>),
      (''driver_id'', (Field TUUID)\<lparr>optional := True, default := Default VNone,
          foreign_key := Some ''driver.id''\<rparr>),
      (''vehicle_id'', (Field TUUID)\<lparr>optional := True, default := Default VNone,
          foreign_key := Some ''vehicle.id''\<rparr>),
      (''company_id'', (Field TUUID)\<lparr>foreign_key := Some ''deliverycompany.id''\<rparr>),
      (''pickup_address_id'', (Field TUUID)\<lparr>foreign_key := Some ''address.id''\<rparr>),
      (''delivery_address_id'', (Field TUUID)\<lparr>foreign_key := Some ''address.id''\<rparr>),
      (''status'', Field (TEnum DeliveryStatus)),
      (''started_at'', (Field TDatetime)\<lparr>optional := True, default := Default VNone\<rparr>),
      (''delivered_at'', (Field TDatetime)\<lparr>optional := True, default := Default VNone\<rparr>)],
    relationships = [
      (''order'', Relationship ''Order'' False),
      (''driver'', Relationship ''Driver'' False),
      (''vehicle'', Relationship ''Vehicle'' False),
      (''company'', Relationship ''DeliveryCompany'' False),
      (''pickup_address'', (Relationship ''Address'' False)\<lparr>
          foreign_keys := Some ''pickup_address_id''\<rparr>),
      (''delivery_address'', (Relationship ''Address'' False)\<lparr>
          foreign_keys := Some ''delivery_address_id''\<rparr>)]\<rparr>"

definition Payment :: model where
  "Payment = \<lparr>cls_name = ''Payment'', bases = [''SQLModel''], table = True, model_fields = [
      (''id'', (Field TUUID)\<lparr>default := DefaultFactory uuid4, primary_key := True\<rparr>),
      (''order_id'', (Field TUUID)\<lparr>foreign_key := Some ''order.id''\<rparr>),
      (''amount'', Field TFloat),
      (''payment_method'', Field (TEnum PaymentMethod)),
      (''payment_status'', Field (TEnum PaymentStatus)),
      (''created_at'', (Field TDatetime)\<lparr>default := DefaultFactory utcnow\<rparr>)],
    relationships = [
      (''order'', Relationship ''Order'' False)]\<rparr>"

definition Feedback :: model where
  "Feedback = \<lparr>cls_name = ''Feedback'', bases = [''SQLModel''], table = True, model_fields = [
      (''id'', (Field TUUID)\<lparr>default := DefaultFactory uuid4, primary_key := True\<rparr>),
      (''order_id'', (Field TUUID)\<lparr>foreign_key := Some ''order.id''\<rparr>),
      (''rating'', (Field TInt)\<lparr>ge := Some 1, le := Some 5\<rparr>),
      (''comment'', (Field TStr)\<lparr>optional := True, default := Default VNone,
          max_length := Some 1000\<rparr>),
      (''created_at'', (Field TDatetime)\<lparr>default := DefaultFactory utcnow\<rparr>)],
    relationships = [
      (''order'', Relationship ''Order'' False)]\<rparr>"

definition Promotion :: model where
  "Promotion = \<lparr>cls_name = ''Promotion'', bases = [''SQLModel''], table = True, model_fields = [
      (''id'', (Field TUUID)\<lparr>default := DefaultFactory uuid4, primary_key := True\<rparr>),
      (''code'', (Field TStr)\<lparr>max_length := Some 50\<rparr>),
      (''discount_percentage'', (Field TFloat)\<lparr>ge := Some 0, le := Some 100\<rparr>),
      (''expiry_date'', Field TDatetime),
      (''applicable_countries'', (Field TStr)\<lparr>optional := True, default := Default VNone,
          max_length := Some 1000\<rparr>),
      (''created_at'', (Field TDatetime)\<lparr>default := DefaultFactory utcnow\<rparr>),
      (''updated_at'', (Field TDatetime)\<lparr>default := DefaultFactory utcnow,
          onupdate := Some utcnow\<rparr>)],
    relationships = []\<rparr>"

text \<open>
  The classes above in the order of the module, and those of them declared with
  \<open>table=True\<close>: the persisted entities.
\<close>

definition classes :: "model list" where
  "classes = [UserBase, UserCreate, UserRegister, UserUpdate, UserUpdateMe, UpdatePassword,
     User, UserPublic, ItemBase, ItemCreate, ItemUpdate, Item, ItemPublic, Address,
     DeliveryCompany, PackageItem, Order, Vehicle, Driver, Delivery, Payment, Feedback,
     Promotion]"

definition tables :: "model list" where
  "tables = filter table classes"


text \<open>
  The fields of a class that are annotated with an enum class, and those of all the
  persisted entities.
\<close>

definition enum_fields_of :: "model \<Rightarrow> (string \<times> enum_class) list" where
  "enum_fields_of c =
     concat (map (\<lambda>(n, f). case annotation f of TEnum e \<Rightarrow> [(n, e)] | _ \<Rightarrow> []) (model_fields c))"

definition enum_fields :: "(model \<times> string \<times> enum_class) list" where
  "enum_fields = concat (map (\<lambda>c. map (Pair c) (enum_fields_of c)) tables)"

subsection \<open>Constructing and validating an instance\<close>

text \<open>
  The two default factories read the outside world: the n-th call of \<open>uuid.uuid4\<close>
  returns \<open>rng w n\<close>, the n-th reading of \<open>datetime.utcnow\<close> returns \<open>clock w n\<close>.
\<close>

record world =
  rng :: "nat \<Rightarrow> uuid"
  rng_calls :: nat
  clock :: "nat \<Rightarrow> datetime"
  clock_reads :: nat

fun call_factory :: "factory \<Rightarrow> world \<Rightarrow> pyval \<times> world" where
  "call_factory uuid4 w = (VUUID (rng w (rng_calls w)), w\<lparr>rng_calls := Suc (rng_calls w)\<rparr>)"
| "call_factory utcnow w =
     (VDatetime (clock w (clock_reads w)), w\<lparr>clock_reads := Suc (clock_reads w)\<rparr>)"

fun get_default :: "default_spec \<Rightarrow> world \<Rightarrow> (pyval \<times> world) option" where
  "get_default Undefined w = None"
| "get_default (Default v) w = Some (v, w)"
| "get_default (DefaultFactory g) w = Some (call_factory g w)"

text \<open>
  The kinds of error a field can have, after pydantic's error types, and the exception
  that lists the errors of all fields.
\<close>

datatype error_type =
    missing
  | type_error pytype
  | string_too_short
  | string_too_long
  | greater_than_equal
  | less_than_equal
  | enum_error
  | value_error

datatype ValidationError = ValidationError "(string \<times> error_type) list"

text \<open>
  Two parts of the libraries are parameters. \<open>validate_email\<close> is the validation of an
  \<open>EmailStr\<close> (the email-validator package): the normalised address, or none when
  the address is rejected. \<open>lax\<close> is pydantic's conversion of an input that is not of the
  annotated type (the string \<open>"3"\<close> for an int): the converted value, or none when there
  is no conversion. An input that is of the annotated type never reaches \<open>lax\<close>, nor
  does an int given for a float.
\<close>

record library =
  lax :: "pytype \<Rightarrow> pyval \<Rightarrow> pyval option"
  validate_email :: "FieldInfo \<Rightarrow> string \<Rightarrow> string option"

fun has_type :: "pytype \<Rightarrow> pyval \<Rightarrow> bool" where
  "has_type TStr (VStr _) = True"
| "has_type TInt (VInt _) = True"
| "has_type TFloat (VFloat _) = True"
| "has_type TBool (VBool _) = True"
| "has_type TUUID (VUUID _) = True"
| "has_type TDatetime (VDatetime _) = True"
| "has_type (TEnum c) (VEnum m) = (member_class m = c)"
| "has_type _ _ = False"

text \<open>The constraints of \<open>Field(...)\<close>: lengths of a string, bounds of a number.\<close>

definition check_length :: "FieldInfo \<Rightarrow> string \<Rightarrow> error_type + pyval" where
  "check_length f s =
     (if (case min_length f of Some n \<Rightarrow> length s < n | None \<Rightarrow> False) then Inl string_too_short
      else if (case max_length f of Some n \<Rightarrow> n < length s | None \<Rightarrow> False) then Inl string_too_long
      else Inr (VStr s))"

definition check_bounds :: "FieldInfo \<Rightarrow> real \<Rightarrow> pyval \<Rightarrow> error_type + pyval" where
  "check_bounds f x v =
     (if (case ge f of Some b \<Rightarrow> x < of_int b | None \<Rightarrow> False) then Inl greater_than_equal
      else if (case le f of Some b \<Rightarrow> of_int b < x | None \<Rightarrow> False) then Inl less_than_equal
      else Inr v)"

fun constrain :: "FieldInfo \<Rightarrow> pyval \<Rightarrow> error_type + pyval" where
  "constrain f (VStr s) = check_length f s"
| "constrain f (VInt i) = check_bounds f (of_int i) (VInt i)"
| "constrain f (VFloat x) = check_bounds f x (VFloat x)"
| "constrain f v = Inr v"

text \<open>
  The error of \<open>None\<close> given for a field that is not optional: the error of the
  annotated type, which for an enum class is the enum error.
\<close>

fun none_error :: "pytype \<Rightarrow> error_type" where
  "none_error (TEnum c) = enum_error"
| "none_error t = type_error t"

text \<open>
  Validating one supplied value against a field. \<open>None\<close> is accepted by an optional
  field only. A string for an \<open>EmailStr\<close> goes to the email validation, a string for
  an enum is looked up among the values of the members, and an int for a float becomes
  the float of the same value (the rounding of an int beyond 2^53 is outside the model,
  as the infinities are) and is checked against the constraints. Any other input of the
  annotated type is checked against the constraints, and an input of another type is
  converted first.
\<close>

definition validate_value :: "library \<Rightarrow> FieldInfo \<Rightarrow> pyval \<Rightarrow> error_type + pyval" where
  "validate_value X f v =
     (if v = VNone then (if optional f then Inr VNone else Inl (none_error (annotation f)))
      else case (annotation f, v) of
          (TEmailStr, VStr s) \<Rightarrow>
            (case validate_email X f s of Some s' \<Rightarrow> Inr (VStr s') | None \<Rightarrow> Inl value_error)
        | (TEnum c, VStr s) \<Rightarrow>
            (case enum_lookup c s of Some m \<Rightarrow> Inr (VEnum m) | None \<Rightarrow> Inl enum_error)
        | (TFloat, VInt i) \<Rightarrow> constrain f (VFloat (of_int i))
        | (t, u) \<Rightarrow>
            if has_type t u then constrain f u
            else (case lax X t u of Some u' \<Rightarrow> constrain f u' | None \<Rightarrow> Inl (type_error t)))"

text \<open>
  One field of an instance under validation: the supplied value validated, or the default
  of a field that was not supplied (a default is not validated), or the error
  \<open>missing\<close> for a required field.
\<close>

definition validate_field ::
  "library \<Rightarrow> FieldInfo \<Rightarrow> pyval option \<Rightarrow> world \<Rightarrow> (error_type + pyval) \<times> world" where
  "validate_field X f a w =
     (case a of
        Some v \<Rightarrow> (validate_value X f v, w)
      | None \<Rightarrow> (case get_default (default f) w of
                   None \<Rightarrow> (Inl missing, w)
                 | Some (v, w') \<Rightarrow> (Inr v, w')))"

text \<open>
  All fields in order, collecting the errors and the values. The keyword arguments are a
  dictionary from names to values; a key that names no field is ignored.
\<close>

fun validate_fields ::
  "library \<Rightarrow> (string \<times> FieldInfo) list \<Rightarrow> (string \<rightharpoonup> pyval) \<Rightarrow> world
   \<Rightarrow> (string \<times> error_type) list \<times> (string \<times> pyval) list \<times> world" where
  "validate_fields X [] d w = ([], [], w)"
| "validate_fields X ((n, f) # fs) d w =
     (case validate_field X f (d n) w of
        (Inl e, w1) \<Rightarrow>
          (case validate_fields X fs d w1 of (es, vs, w2) \<Rightarrow> ((n, e) # es, vs, w2))
      | (Inr v, w1) \<Rightarrow>
          (case validate_fields X fs d w1 of (es, vs, w2) \<Rightarrow> (es, (n, v) # vs, w2)))"

text \<open>
  \<open>cls.model_validate(data)\<close>: the instance, as its fields and their values in the
  order of the class, or the ValidationError listing every field in error.
\<close>

definition model_validate ::
  "library \<Rightarrow> model \<Rightarrow> (string \<rightharpoonup> pyval) \<Rightarrow> world
   \<Rightarrow> (ValidationError + (string \<times> pyval) list) \<times> world" where
  "model_validate X cls d w =
     (case validate_fields X (model_fields cls) d w of
        (es, vs, w') \<Rightarrow> (if es = [] then Inr vs else Inl (ValidationError es), w'))"

text \<open>
  What SQLModel does for a class declared with \<open>table=True\<close> when it is called:
  each supplied value is stored as it is, a field that was not supplied gets its default,
  and a required field that was not supplied is left unset. Nothing is validated.
\<close>

fun table_construct ::
  "(string \<times> FieldInfo) list \<Rightarrow> (string \<rightharpoonup> pyval) \<Rightarrow> world
   \<Rightarrow> (string \<times> pyval) list \<times> world" where
  "table_construct [] d w = ([], w)"
| "table_construct ((n, f) # fs) d w =
     (case d n of
        Some v \<Rightarrow> (case table_construct fs d w of (vs, w') \<Rightarrow> ((n, v) # vs, w'))
      | None \<Rightarrow>
          (case get_default (default f) w of
             None \<Rightarrow> table_construct fs d w
           | Some (v, w1) \<Rightarrow> (case table_construct fs d w1 of (vs, w') \<Rightarrow> ((n, v) # vs, w'))))"

text \<open>
  Calling a class, \<open>cls(**data)\<close>: SQLModel validates the data unless the class is a
  table.
\<close>

definition init ::
  "library \<Rightarrow> model \<Rightarrow> (string \<rightharpoonup> pyval) \<Rightarrow> world
   \<Rightarrow> (ValidationError + (string \<times> pyval) list) \<times> world" where
  "init X cls d w =
     (if table cls then (case table_construct (model_fields cls) d w of (vs, w') \<Rightarrow> (Inr vs, w'))
      else model_validate X cls d w)"

text \<open>
  What the statements below say about a call: it raised a ValidationError that lists the
  error \<open>e\<close> for the field \<open>n\<close>; it returned an instance whose field \<open>n\<close> holds
  \<open>v\<close>. \<open>accepts\<close> says that a field takes what was passed for it (a value that
  validates, or nothing when the field has a default), and \<open>others_accepted\<close> that
  every field but \<open>n\<close> does.
\<close>

definition raises ::
  "(ValidationError + (string \<times> pyval) list) \<times> world \<Rightarrow> string \<Rightarrow> error_type \<Rightarrow> bool" where
  "raises r n e = (case fst r of Inl (ValidationError es) \<Rightarrow> (n, e) \<in> set es | Inr vs \<Rightarrow> False)"

definition returns ::
  "(ValidationError + (string \<times> pyval) list) \<times> world \<Rightarrow> string \<Rightarrow> pyval \<Rightarrow> bool" where
  "returns r n v = (case fst r of Inl e \<Rightarrow> False | Inr vs \<Rightarrow> map_of vs n = Some v)"

definition accepts :: "library \<Rightarrow> FieldInfo \<Rightarrow> pyval option \<Rightarrow> bool" where
  "accepts X f a =
     (case a of
        Some v \<Rightarrow> (case validate_value X f v of Inl e \<Rightarrow> False | Inr u \<Rightarrow> True)
      | None \<Rightarrow> default f \<noteq> Undefined)"

definition others_accepted :: "library \<Rightarrow> model \<Rightarrow> (string \<rightharpoonup> pyval) \<Rightarrow> string \<Rightarrow> bool" where
  "others_accepted X cls d n = list_all (\<lambda>(m, f). m = n \<or> accepts X f (d m)) (model_fields cls)"

text \<open>
  The attributes of an instance by name, as validating an instance against another class
  reads them: \<open>UserPublic.model_validate(user)\<close> validates the attributes of
  \<open>user\<close> that are fields of UserPublic.
\<close>

definition attributes :: "(string \<times> pyval) list \<Rightarrow> (string \<rightharpoonup> pyval)" where
  "attributes u = map_of u"

text \<open>
  A library and a world to run examples in: every address is a valid email, returned as
  it is, and no input of another type is converted; the n-th UUID is n and the n-th
  reading of the clock is 1000 + n.
\<close>

definition lib0 :: library where
  "lib0 = \<lparr>lax = (\<lambda>t v. None), validate_email = (\<lambda>f s. Some s)\<rparr>"

definition world0 :: world where
  "world0 = \<lparr>rng = (\<lambda>n. of_nat n), rng_calls = 0, clock = (\<lambda>n. 1000 + int n), clock_reads = 0\<rparr>"

subsection \<open>Rows in the database: updates and deletes\<close>

text \<open>
  A stored object is the name of its class and its row; the database is the list of the
  stored objects.
\<close>

type_synonym row = "(string \<times> pyval) list"

type_synonym obj = "string \<times> row"

type_synonym database = "obj list"

text \<open>
  SQLAlchemy's flush of a row whose attributes were assigned (\<open>ch\<close>: the new values by
  column). Only a value that differs from the stored one is a change, and a row with no
  change is not written. When the row is written, each changed column takes its new
  value, and a column declared with \<open>onupdate\<close> that is not among the changed ones is
  set by calling the function; the other columns keep their values.
\<close>

definition net_changes :: "row \<Rightarrow> (string \<rightharpoonup> pyval) \<Rightarrow> (string \<rightharpoonup> pyval)" where
  "net_changes r ch =
     (\<lambda>n. case ch n of
             Some v \<Rightarrow> if map_of r n = Some v then None else Some v
           | None \<Rightarrow> None)"

fun flush_columns ::
  "(string \<times> FieldInfo) list \<Rightarrow> row \<Rightarrow> (string \<rightharpoonup> pyval) \<Rightarrow> world \<Rightarrow> row \<times> world" where
  "flush_columns [] r ch w = ([], w)"
| "flush_columns ((n, f) # fs) r ch w =
     (case ch n of
        Some v \<Rightarrow> (case flush_columns fs r ch w of (vs, w') \<Rightarrow> ((n, v) # vs, w'))
      | None \<Rightarrow>
          (case onupdate f of
             Some g \<Rightarrow>
               (case call_factory g w of (v, w1) \<Rightarrow>
                  (case flush_columns fs r ch w1 of (vs, w') \<Rightarrow> ((n, v) # vs, w')))
           | None \<Rightarrow>
               (case map_of r n of
                  Some v \<Rightarrow> (case flush_columns fs r ch w of (vs, w') \<Rightarrow> ((n, v) # vs, w'))
                | None \<Rightarrow> flush_columns fs r ch w)))"

definition changed :: "model \<Rightarrow> row \<Rightarrow> (string \<rightharpoonup> pyval) \<Rightarrow> bool" where
  "changed cls r ch = list_ex (\<lambda>(n, f). net_changes r ch n \<noteq> None) (model_fields cls)"

definition flush_update :: "model \<Rightarrow> row \<Rightarrow> (string \<rightharpoonup> pyval) \<Rightarrow> world \<Rightarrow> row \<times> world" where
  "flush_update cls r ch w =
     (if changed cls r ch then flush_columns (model_fields cls) r (net_changes r ch) w
      else (r, w))"

text \<open>
  The declaration of a field of a class by name; a field is stamped at creation when its
  default is a reading of the clock, and stamped on update when its \<open>onupdate\<close> is.
\<close>

definition field_of :: "model \<Rightarrow> string \<Rightarrow> FieldInfo option" where
  "field_of c n = map_of (model_fields c) n"

definition stamped_at_creation :: "model \<Rightarrow> string \<Rightarrow> bool" where
  "stamped_at_creation c n =
     (case field_of c n of Some f \<Rightarrow> default f = DefaultFactory utcnow | None \<Rightarrow> False)"

definition stamped_on_update :: "model \<Rightarrow> string \<Rightarrow> bool" where
  "stamped_on_update c n =
     (case field_of c n of Some f \<Rightarrow> onupdate f = Some utcnow | None \<Rightarrow> False)"

text \<open>
  SQLModel names the table of a class by the class name in lower case; a foreign key
  \<open>"user.id"\<close> names the table and its column.
\<close>

definition lower_char :: "char \<Rightarrow> char" where
  "lower_char c =
     (case map_of (zip ''ABCDEFGHIJKLMNOPQRSTUVWXYZ'' ''abcdefghijklmnopqrstuvwxyz'') c of
        Some l \<Rightarrow> l
      | None \<Rightarrow> c)"

definition tablename :: "string \<Rightarrow> string" where
  "tablename cn = map lower_char cn"

definition class_of :: "string \<Rightarrow> model option" where
  "class_of cn = find (\<lambda>c. cls_name c = cn) classes"

text \<open>The column of class \<open>c\<close> whose foreign key is the id of the table of class \<open>t\<close>.\<close>

definition fk_column :: "model \<Rightarrow> string \<Rightarrow> string option" where
  "fk_column c t =
     map_option fst (find (\<lambda>(n, f). foreign_key f = Some (tablename t @ ''.id'')) (model_fields c))"

text \<open>
  The stored objects a relationship attribute of an object holds. For a list, the rows
  of the target class whose foreign key is this object's id; otherwise, the row of the
  target class whose id is this object's foreign key (the column named by
  \<open>foreign_keys\<close> when the relationship gives one).
\<close>

definition related :: "database \<Rightarrow> obj \<Rightarrow> RelationshipInfo \<Rightarrow> obj list" where
  "related db ob r =
     (if uselist r then
        (case class_of (target r) of
           None \<Rightarrow> []
         | Some tc \<Rightarrow>
             (case fk_column tc (fst ob) of
                None \<Rightarrow> []
              | Some col \<Rightarrow>
                  (case map_of (snd ob) ''id'' of
                     Some (VUUID i) \<Rightarrow>
                       filter (\<lambda>o'. fst o' = target r \<and> map_of (snd o') col = Some (VUUID i)) db
                   | _ \<Rightarrow> [])))
      else
        (case class_of (fst ob) of
           None \<Rightarrow> []
         | Some c \<Rightarrow>
             (case (case foreign_keys r of Some col \<Rightarrow> Some col | None \<Rightarrow> fk_column c (target r)) of
                None \<Rightarrow> []
              | Some col \<Rightarrow>
                  (case map_of (snd ob) col of
                     Some (VUUID i) \<Rightarrow>
                       filter (\<lambda>o'. fst o' = target r \<and> map_of (snd o') ''id'' = Some (VUUID i)) db
                   | _ \<Rightarrow> []))))"

text \<open>
  The relationships of a class that cascade a delete (\<open>"delete"\<close> is the only cascade
  setting the module writes), listed over all classes as class and attribute; and the
  objects that the delete of an object is passed on to directly.
\<close>

definition delete_cascades :: "model \<Rightarrow> (string \<times> RelationshipInfo) list" where
  "delete_cascades c = filter (\<lambda>(n, r). cascade r = Some ''delete'') (relationships c)"

definition cascade_declarations :: "(string \<times> string) list" where
  "cascade_declarations =
     concat (map (\<lambda>c. map (\<lambda>(n, r). (cls_name c, n)) (delete_cascades c)) classes)"

definition cascade_targets :: "database \<Rightarrow> obj \<Rightarrow> obj list" where
  "cascade_targets db ob =
     (case class_of (fst ob) of
        None \<Rightarrow> []
      | Some c \<Rightarrow> concat (map (\<lambda>(n, r). related db ob r) (delete_cascades c)))"

text \<open>
  \<open>session.delete(ob)\<close> deletes the object and everything the delete cascades to, in
  any number of steps.
\<close>

definition deletes :: "database \<Rightarrow> obj \<Rightarrow> obj \<Rightarrow> bool" where
  "deletes db ob ob' = (\<lambda>a b. b \<in> set (cascade_targets db a))\<^sup>*\<^sup>* ob ob'"

text \<open>
  The id is the primary key of every table: no two stored objects of one class have the
  same id.
\<close>

definition primary_keys_unique :: "database \<Rightarrow> bool" where
  "primary_keys_unique db =
     list_all (\<lambda>a. list_all (\<lambda>b. fst a = fst b \<and> map_of (snd a) ''id'' = map_of (snd b) ''id''
                                   \<longrightarrow> a = b) db) db"

text \<open>An order with two packages, and a user with an item next to the item of another user.\<close>

definition order1 :: obj where
  "order1 = (''Order'', [(''id'', VUUID 1), (''customer_name'', VStr ''Ann''),
     (''customer_email'', VStr ''ann@example.com''), (''sender_address_id'', VUUID 10),
     (''recipient_address_id'', VUUID 11), (''status'', VEnum (EOrderStatus PENDING)),
     (''total_weight'', VNone), (''total_price'', VFloat 20),
     (''created_at'', VDatetime 1000), (''updated_at'', VDatetime 1001)])"

definition package1 :: obj where
  "package1 = (''PackageItem'', [(''id'', VUUID 2), (''order_id'', VUUID 1),
     (''description'', VStr ''books''), (''weight'', VFloat 3), (''dimensions'', VStr ''30x20x10''),
     (''quantity'', VInt 1)])"

definition package2 :: obj where
  "package2 = (''PackageItem'', [(''id'', VUUID 3), (''order_id'', VUUID 1),
     (''description'', VStr ''lamp''), (''weight'', VFloat 1), (''dimensions'', VStr ''20x20x40''),
     (''quantity'', VInt 2)])"

definition user1 :: obj where
  "user1 = (''User'', [(''email'', VStr ''ann@example.com''), (''is_active'', VBool True),
     (''is_superuser'', VBool False), (''full_name'', VNone), (''id'', VUUID 4),
     (''hashed_password'', VStr ''hash one'')])"

definition item1 :: obj where
  "item1 = (''Item'', [(''title'', VStr ''Lamp''), (''description'', VNone), (''id'', VUUID 5),
     (''owner_id'', VUUID 4)])"

definition item2 :: obj where
  "item2 = (''Item'', [(''title'', VStr ''Desk''), (''description'', VNone), (''id'', VUUID 6),
     (''owner_id'', VUUID 7)])"

definition db0 :: database where
  "db0 = [order1, package1, package2, user1, item1, item2]"

section \<open>Facts about the library functions\<close>

lemma validate_field_accepts:
  "accepts X f a \<longleftrightarrow> (\<exists>v. fst (validate_field X f a w) = Inr v)"
  by (cases "default f")
     (auto simp: accepts_def validate_field_def split: option.splits sum.splits prod.splits)

lemma field_error_world:
  "fst (validate_field X f a w) = Inl e \<longleftrightarrow> fst (validate_field X f a w') = Inl e"
  by (cases "default f")
     (auto simp: validate_field_def split: option.splits sum.splits prod.splits)

lemma validate_fields_errors_Cons:
  "fst (validate_fields X ((n, f) # fs) d w) =
     (case fst (validate_field X f (d n) w) of
        Inl e \<Rightarrow> (n, e) # fst (validate_fields X fs d (snd (validate_field X f (d n) w)))
      | Inr v \<Rightarrow> fst (validate_fields X fs d (snd (validate_field X f (d n) w))))"
  by (simp split: prod.splits sum.splits)

lemma validate_fields_values_Cons:
  "fst (snd (validate_fields X ((n, f) # fs) d w)) =
     (case fst (validate_field X f (d n) w) of
        Inl e \<Rightarrow> fst (snd (validate_fields X fs d (snd (validate_field X f (d n) w))))
      | Inr v \<Rightarrow> (n, v) # fst (snd (validate_fields X fs d (snd (validate_field X f (d n) w)))))"
  by (simp split: prod.splits sum.splits)

lemma validate_fields_error_in:
  "(n, f) \<in> set fs \<Longrightarrow> fst (validate_field X f (d n) w0) = Inl e \<Longrightarrow>
   (n, e) \<in> set (fst (validate_fields X fs d w))"
proof (induction fs arbitrary: w)
  case Nil
  then show ?case by simp
next
  case (Cons a fs)
  obtain m g where a: "a = (m, g)" by (cases a)
  show ?case
  proof (cases "(n, f) = (m, g)")
    case True
    with Cons.prems(2) have "fst (validate_field X g (d m) w) = Inl e"
      using field_error_world by blast
    then show ?thesis using a True
      by (simp add: validate_fields_errors_Cons del: validate_fields.simps)
  next
    case False
    with Cons.prems a have "(n, f) \<in> set fs" by auto
    from Cons.IH[OF this Cons.prems(2)] show ?thesis using a
      by (simp add: validate_fields_errors_Cons del: validate_fields.simps split: sum.splits)
  qed
qed

lemma validate_fields_no_error:
  "(\<And>n f. (n, f) \<in> set fs \<Longrightarrow> accepts X f (d n)) \<Longrightarrow> fst (validate_fields X fs d w) = []"
proof (induction fs arbitrary: w)
  case Nil
  then show ?case by simp
next
  case (Cons a fs)
  obtain m g where a: "a = (m, g)" by (cases a)
  have "accepts X g (d m)" using Cons.prems a by simp
  then obtain v where v: "fst (validate_field X g (d m) w) = Inr v"
    using validate_field_accepts by blast
  have "fst (validate_fields X fs d w1) = []" for w1
    using Cons.IH Cons.prems by simp
  then show ?case using a v
    by (simp add: validate_fields_errors_Cons del: validate_fields.simps)
qed

lemma validate_fields_value:
  "distinct (map fst fs) \<Longrightarrow> (n, f) \<in> set fs \<Longrightarrow>
   (\<And>w'. fst (validate_field X f (d n) w') = Inr u) \<Longrightarrow>
   map_of (fst (snd (validate_fields X fs d w))) n = Some u"
proof (induction fs arbitrary: w)
  case Nil
  then show ?case by simp
next
  case (Cons a fs)
  obtain m g where a: "a = (m, g)" by (cases a)
  show ?case
  proof (cases "n = m")
    case True
    with Cons.prems a have "f = g" by (auto simp: rev_image_eqI)
    with Cons.prems(3) True have "fst (validate_field X g (d m) w) = Inr u" by simp
    then show ?thesis using a True
      by (simp add: validate_fields_values_Cons del: validate_fields.simps)
  next
    case False
    with Cons.prems a have "(n, f) \<in> set fs" "distinct (map fst fs)" by auto
    from Cons.IH[OF this(2) this(1) Cons.prems(3)] show ?thesis using a False
      by (simp add: validate_fields_values_Cons del: validate_fields.simps split: sum.splits)
  qed
qed

lemma raises_model_validate:
  assumes "(n, f) \<in> set (model_fields cls)"
    and "fst (validate_field X f (d n) w0) = Inl e"
  shows "raises (model_validate X cls d w) n e"
proof -
  have "(n, e) \<in> set (fst (validate_fields X (model_fields cls) d w))"
    using assms by (rule validate_fields_error_in)
  then show ?thesis
    by (auto simp: raises_def model_validate_def split: prod.splits)
qed

lemma raises_supplied:
  assumes "(n, f) \<in> set (model_fields cls)" and "d n = Some v"
    and "validate_value X f v = Inl e"
  shows "raises (model_validate X cls d w) n e"
  using assms(1) by (rule raises_model_validate [where ?w0.0 = w]) (simp add: validate_field_def assms)

lemma raises_missing:
  assumes "(n, f) \<in> set (model_fields cls)" and "d n = None" and "default f = Undefined"
  shows "raises (model_validate X cls d w) n missing"
  using assms(1) by (rule raises_model_validate [where ?w0.0 = w]) (simp add: validate_field_def assms)

lemma all_accepted:
  assumes "distinct (map fst (model_fields cls))"
    and "(n, f) \<in> set (model_fields cls)" and "accepts X f (d n)"
    and "others_accepted X cls d n" and "(m, g) \<in> set (model_fields cls)"
  shows "accepts X g (d m)"
proof (cases "m = n")
  case True
  have "map_of (model_fields cls) n = Some f"
    using assms(1,2) by (rule map_of_is_SomeI)
  moreover have "map_of (model_fields cls) n = Some g"
    using assms(1,5) True by (simp add: map_of_is_SomeI)
  ultimately have "g = f" by simp
  with True assms(3) show ?thesis by simp
next
  case False
  then show ?thesis using assms(4,5) by (auto simp: others_accepted_def list_all_iff)
qed

lemma returns_supplied:
  assumes dist: "distinct (map fst (model_fields cls))"
    and f: "(n, f) \<in> set (model_fields cls)"
    and v: "d n = Some v" "validate_value X f v = Inr u"
    and others: "others_accepted X cls d n"
  shows "returns (model_validate X cls d w) n u"
proof -
  have "accepts X f (d n)" using v by (simp add: accepts_def)
  then have "\<And>m g. (m, g) \<in> set (model_fields cls) \<Longrightarrow> accepts X g (d m)"
    using all_accepted [OF dist f _ others] by blast
  then have no_errors: "fst (validate_fields X (model_fields cls) d w) = []"
    by (rule validate_fields_no_error)
  have "\<And>w'. fst (validate_field X f (d n) w') = Inr u"
    using v by (simp add: validate_field_def)
  then have "map_of (fst (snd (validate_fields X (model_fields cls) d w))) n = Some u"
    by (rule validate_fields_value [OF dist f])
  with no_errors show ?thesis
    by (auto simp: returns_def model_validate_def split: prod.splits)
qed


lemma table_construct_values_Cons:
  "fst (table_construct ((n, f) # fs) d w) =
     (case d n of
        Some v \<Rightarrow> (n, v) # fst (table_construct fs d w)
      | None \<Rightarrow>
          (case get_default (default f) w of
             None \<Rightarrow> fst (table_construct fs d w)
           | Some (v, w1) \<Rightarrow> (n, v) # fst (table_construct fs d w1)))"
  by (simp split: prod.splits option.splits)

lemma table_construct_supplied:
  "distinct (map fst fs) \<Longrightarrow> (n, f) \<in> set fs \<Longrightarrow> d n = Some v \<Longrightarrow>
   map_of (fst (table_construct fs d w)) n = Some v"
proof (induction fs arbitrary: w)
  case Nil
  then show ?case by simp
next
  case (Cons a fs)
  obtain m g where a: "a = (m, g)" by (cases a)
  show ?case
  proof (cases "n = m")
    case True
    then show ?thesis using a Cons.prems(3)
      by (simp add: table_construct_values_Cons del: table_construct.simps)
  next
    case False
    with Cons.prems a have "(n, f) \<in> set fs" "distinct (map fst fs)" by auto
    from Cons.IH[OF this(2) this(1)] Cons.prems(3) show ?thesis using a False
      by (simp add: table_construct_values_Cons del: table_construct.simps
          split: option.splits prod.splits)
  qed
qed


lemma init_table:
  "table cls \<Longrightarrow> fst (init X cls d w) = Inr (fst (table_construct (model_fields cls) d w))"
  by (simp add: init_def split: prod.splits)

lemma init_not_table: "\<not> table cls \<Longrightarrow> init X cls d w = model_validate X cls d w"
  by (simp add: init_def)

lemma returns_table_supplied:
  assumes "table cls" "distinct (map fst (model_fields cls))"
    and "(n, f) \<in> set (model_fields cls)" and "d n = Some v"
  shows "returns (init X cls d w) n v"
  using table_construct_supplied [where d = d, OF assms(2,3,4)] assms(1)
  by (simp add: returns_def init_table)


subsection \<open>The classes of the module\<close>

lemmas class_defs =
  UserBase_def UserCreate_def UserRegister_def UserUpdate_def UserUpdateMe_def
  UpdatePassword_def User_def UserPublic_def ItemBase_def ItemCreate_def
  ItemUpdate_def Item_def ItemPublic_def Address_def DeliveryCompany_def
  PackageItem_def Order_def Vehicle_def Driver_def Delivery_def
  Payment_def Feedback_def Promotion_def

lemma class_headers [simp]:
  "cls_name UserBase = ''UserBase''" "bases UserBase = [''SQLModel'']" "table UserBase = False"
  "cls_name UserCreate = ''UserCreate''" "bases UserCreate = [''UserBase'']" "table UserCreate = False"
  "cls_name UserRegister = ''UserRegister''" "bases UserRegister = [''SQLModel'']" "table UserRegister = False"
  "cls_name UserUpdate = ''UserUpdate''" "bases UserUpdate = [''UserBase'']" "table UserUpdate = False"
  "cls_name UserUpdateMe = ''UserUpdateMe''" "bases UserUpdateMe = [''SQLModel'']" "table UserUpdateMe = False"
  "cls_name UpdatePassword = ''UpdatePassword''" "bases UpdatePassword = [''SQLModel'']" "table UpdatePassword = False"
  "cls_name User = ''User''" "bases User = [''UserBase'']" "table User = True"
  "cls_name UserPublic = ''UserPublic''" "bases UserPublic = [''UserBase'']" "table UserPublic = False"
  "cls_name ItemBase = ''ItemBase''" "bases ItemBase = [''SQLModel'']" "table ItemBase = False"
  "cls_name ItemCreate = ''ItemCreate''" "bases ItemCreate = [''ItemBase'']" "table ItemCreate = False"
  "cls_name ItemUpdate = ''ItemUpdate''" "bases ItemUpdate = [''ItemBase'']" "table ItemUpdate = False"
  "cls_name Item = ''Item''" "bases Item = [''ItemBase'']" "table Item = True"
  "cls_name ItemPublic = ''ItemPublic''" "bases ItemPublic = [''ItemBase'']" "table ItemPublic = False"
  "cls_name Address = ''Address''" "bases Address = [''SQLModel'']" "table Address = True"
  "cls_name DeliveryCompany = ''DeliveryCompany''" "bases DeliveryCompany = [''SQLModel'']" "table DeliveryCompany = True"
  "cls_name PackageItem = ''PackageItem''" "bases PackageItem = [''SQLModel'']" "table PackageItem = True"
  "cls_name Order = ''Order''" "bases Order = [''SQLModel'']" "table Order = True"
  "cls_name Vehicle = ''Vehicle''" "bases Vehicle = [''SQLModel'']" "table Vehicle = True"
  "cls_name Driver = ''Driver''" "bases Driver = [''SQLModel'']" "table Driver = True"
  "cls_name Delivery = ''Delivery''" "bases Delivery = [''SQLModel'']" "table Delivery = True"
  "cls_name Payment = ''Payment''" "bases Payment = [''SQLModel'']" "table Payment = True"
  "cls_name Feedback = ''Feedback''" "bases Feedback = [''SQLModel'']" "table Feedback = True"
  "cls_name Promotion = ''Promotion''" "bases Promotion = [''SQLModel'']" "table Promotion = True"
  by (simp_all add: class_defs)

lemma tables_list:
  "tables = [User, Item, Address, DeliveryCompany, PackageItem, Order, Vehicle, Driver,
     Delivery, Payment, Feedback, Promotion]"
  by (simp add: tables_def classes_def)


subsection \<open>The fields of the classes, inheritance resolved\<close>

lemma ItemCreate_fields:
  "model_fields ItemCreate = [
     (''title'', (Field TStr)\<lparr>min_length := Some 1, max_length := Some 255\<rparr>),
     (''description'', (Field TStr)\<lparr>optional := True, default := Default VNone,
         max_length := Some 255\<rparr>)]"
  by (simp add: ItemCreate_def ItemBase_def inherit_def)

lemma Item_fields:
  "model_fields Item = [
     (''title'', (Field TStr)\<lparr>max_length := Some 255\<rparr>),
     (''description'', (Field TStr)\<lparr>optional := True, default := Default VNone,
         max_length := Some 255\<rparr>),
     (''id'', (Field TUUID)\<lparr>default := DefaultFactory uuid4, primary_key := True\<rparr>),
     (''owner_id'', (Field TUUID)\<lparr>foreign_key := Some ''user.id'', nullable := Some False\<rparr>)]"
  by (simp add: Item_def ItemBase_def inherit_def)

lemma validate_value_str:
  "annotation f = TStr \<Longrightarrow> validate_value X f (VStr s) = check_length f s"
  by (simp add: validate_value_def)

lemma others_accepted_upd:
  "others_accepted X cls (d(n := a)) n = others_accepted X cls d n"
  unfolding others_accepted_def list_all_iff
  by (rule ball_cong [OF refl]) (auto split: if_splits)

lemma ItemUpdate_fields:
  "model_fields ItemUpdate = [
     (''title'', (Field TStr)\<lparr>optional := True, default := Default VNone,
         min_length := Some 1, max_length := Some 255\<rparr>),
     (''description'', (Field TStr)\<lparr>optional := True, default := Default VNone,
         max_length := Some 255\<rparr>)]"
  by (simp add: ItemUpdate_def ItemBase_def inherit_def)

lemma UserCreate_fields:
  "model_fields UserCreate = [
     (''email'', (Field TEmailStr)\<lparr>unique := True, index := True, max_length := Some 255\<rparr>),
     (''is_active'', (Field TBool)\<lparr>default := Default (VBool True)\<rparr>),
     (''is_superuser'', (Field TBool)\<lparr>default := Default (VBool False)\<rparr>),
     (''full_name'', (Field TStr)\<lparr>optional := True, default := Default VNone,
         max_length := Some 255\<rparr>),
     (''password'', (Field TStr)\<lparr>min_length := Some 8, max_length := Some 40\<rparr>)]"
  by (simp add: UserCreate_def UserBase_def inherit_def)

lemma validate_value_int:
  "annotation f = TInt \<Longrightarrow> validate_value X f (VInt i) = check_bounds f (of_int i) (VInt i)"
  by (simp add: validate_value_def)

lemma validate_value_float:
  "annotation f = TFloat \<Longrightarrow> validate_value X f (VFloat x) = check_bounds f x (VFloat x)"
  by (simp add: validate_value_def)

lemma validate_value_int_as_float:
  "annotation f = TFloat \<Longrightarrow>
   validate_value X f (VInt i) = check_bounds f (of_int i) (VFloat (of_int i))"
  by (simp add: validate_value_def)

subsection \<open>Enum fields\<close>

lemma User_fields:
  "model_fields User = [
     (''email'', (Field TEmailStr)\<lparr>unique := True, index := True, max_length := Some 255\<rparr>),
     (''is_active'', (Field TBool)\<lparr>default := Default (VBool True)\<rparr>),
     (''is_superuser'', (Field TBool)\<lparr>default := Default (VBool False)\<rparr>),
     (''full_name'', (Field TStr)\<lparr>optional := True, default := Default VNone,
         max_length := Some 255\<rparr>),
     (''id'', (Field TUUID)\<lparr>default := DefaultFactory uuid4, primary_key := True\<rparr>),
     (''hashed_password'', Field TStr)]"
  by (simp add: User_def UserBase_def inherit_def)

lemma enum_fields_of_tables:
  "enum_fields_of User = []" "enum_fields_of Item = []" "enum_fields_of Address = []"
  "enum_fields_of DeliveryCompany = []" "enum_fields_of PackageItem = []"
  "enum_fields_of Order = [(''status'', OrderStatus)]"
  "enum_fields_of Vehicle = [(''type'', VehicleType)]"
  "enum_fields_of Driver = []"
  "enum_fields_of Delivery = [(''status'', DeliveryStatus)]"
  "enum_fields_of Payment = [(''payment_method'', PaymentMethod), (''payment_status'', PaymentStatus)]"
  "enum_fields_of Feedback = []" "enum_fields_of Promotion = []"
  by (simp_all add: enum_fields_of_def User_fields Item_fields Address_def DeliveryCompany_def
      PackageItem_def Order_def Vehicle_def Driver_def Delivery_def Payment_def Feedback_def
      Promotion_def Field_def)

lemma enum_fields_list:
  "enum_fields = [(Order, ''status'', OrderStatus), (Vehicle, ''type'', VehicleType),
     (Delivery, ''status'', DeliveryStatus), (Payment, ''payment_method'', PaymentMethod),
     (Payment, ''payment_status'', PaymentStatus)]"
  by (simp add: enum_fields_def tables_list enum_fields_of_tables)

lemma enum_lookup_None: "enum_lookup e s = None \<longleftrightarrow> s \<notin> member_value ` set (members e)"
  by (auto simp: enum_lookup_def find_None_iff)

lemma enum_lookup_member: "m \<in> set (members e) \<Longrightarrow> enum_lookup e (member_value m) = Some m"
proof (cases m)
  case (EOrderStatus x)
  then show "m \<in> set (members e) \<Longrightarrow> ?thesis"
    by (cases e; cases x) (simp_all add: enum_lookup_def)
next
  case (EDeliveryStatus x)
  then show "m \<in> set (members e) \<Longrightarrow> ?thesis"
    by (cases e; cases x) (simp_all add: enum_lookup_def)
next
  case (EPaymentStatus x)
  then show "m \<in> set (members e) \<Longrightarrow> ?thesis"
    by (cases e; cases x) (simp_all add: enum_lookup_def)
next
  case (EPaymentMethod x)
  then show "m \<in> set (members e) \<Longrightarrow> ?thesis"
    by (cases e; cases x) (simp_all add: enum_lookup_def)
next
  case (EVehicleType x)
  then show "m \<in> set (members e) \<Longrightarrow> ?thesis"
    by (cases e; cases x) (simp_all add: enum_lookup_def)
qed

lemma validate_value_enum:
  "annotation f = TEnum e \<Longrightarrow>
   validate_value X f (VStr s) =
     (case enum_lookup e s of Some m \<Rightarrow> Inr (VEnum m) | None \<Rightarrow> Inl enum_error)"
  by (simp add: validate_value_def)

lemma enum_field_closed:
  assumes f: "(n, f) \<in> set (model_fields c)" and e: "annotation f = TEnum e"
    and dist: "distinct (map fst (model_fields c))" and tb: "table c"
  shows "(s \<notin> member_value ` set (members e) \<longrightarrow>
            raises (model_validate X c (d(n \<mapsto> VStr s)) w) n enum_error) \<and>
         (\<forall>m\<in>set (members e). others_accepted X c d n \<longrightarrow>
            returns (model_validate X c (d(n \<mapsto> VStr (member_value m))) w) n (VEnum m)) \<and>
         returns (init X c (d(n \<mapsto> VStr s)) w) n (VStr s)"
proof (intro conjI impI ballI)
  assume "s \<notin> member_value ` set (members e)"
  then have "validate_value X f (VStr s) = Inl enum_error"
    by (simp add: validate_value_enum [OF e] enum_lookup_None [symmetric])
  then show "raises (model_validate X c (d(n \<mapsto> VStr s)) w) n enum_error"
    by (intro raises_supplied [where d = "d(n \<mapsto> VStr s)", OF f]) simp_all
next
  fix m assume m: "m \<in> set (members e)" and o: "others_accepted X c d n"
  have "validate_value X f (VStr (member_value m)) = Inr (VEnum m)"
    by (simp add: validate_value_enum [OF e] enum_lookup_member [OF m])
  then show "returns (model_validate X c (d(n \<mapsto> VStr (member_value m))) w) n (VEnum m)"
    using o
    by (intro returns_supplied [where d = "d(n \<mapsto> VStr (member_value m))", OF dist f])
       (simp_all add: others_accepted_upd)
next
  show "returns (init X c (d(n \<mapsto> VStr s)) w) n (VStr s)"
    by (rule returns_table_supplied [where d = "d(n \<mapsto> VStr s)", OF tb dist f]) simp
qed

lemma ball_set_Cons: "(\<forall>x\<in>set (y # ys). P x) \<longleftrightarrow> P y \<and> (\<forall>x\<in>set ys. P x)"
  by simp

lemma ball_set_Nil: "(\<forall>x\<in>set []. P x) \<longleftrightarrow> True"
  by simp

subsection \<open>Defaults\<close>


lemma UserPublic_fields:
  "model_fields UserPublic = [
     (''email'', (Field TEmailStr)\<lparr>unique := True, index := True, max_length := Some 255\<rparr>),
     (''is_active'', (Field TBool)\<lparr>default := Default (VBool True)\<rparr>),
     (''is_superuser'', (Field TBool)\<lparr>default := Default (VBool False)\<rparr>),
     (''full_name'', (Field TStr)\<lparr>optional := True, default := Default VNone,
         max_length := Some 255\<rparr>),
     (''id'', Field TUUID)]"
  by (simp add: UserPublic_def UserBase_def inherit_def)



subsection \<open>What validation reads\<close>

lemma validate_fields_cong:
  "(\<And>n. n \<in> fst ` set fs \<Longrightarrow> d1 n = d2 n) \<Longrightarrow>
   validate_fields X fs d1 w = validate_fields X fs d2 w"
proof (induction fs arbitrary: w)
  case Nil
  then show ?case by simp
next
  case (Cons a fs)
  obtain m g where a: "a = (m, g)" by (cases a)
  have "d1 m = d2 m" using Cons.prems a by simp
  moreover have "validate_fields X fs d1 w' = validate_fields X fs d2 w'" for w'
    using Cons.IH Cons.prems by simp
  ultimately show ?case using a by (simp split: prod.splits sum.splits)
qed

lemma validate_fields_names:
  "fst ` set (fst (snd (validate_fields X fs d w))) \<subseteq> fst ` set fs"
proof (induction fs arbitrary: w)
  case Nil
  then show ?case by simp
next
  case (Cons a fs)
  obtain m g where a: "a = (m, g)" by (cases a)
  show ?case using Cons.IH a
    by (auto simp add: validate_fields_values_Cons simp del: validate_fields.simps
        split: sum.splits)
qed

lemma model_validate_cong:
  "(\<And>n. n \<in> fst ` set (model_fields c) \<Longrightarrow> d1 n = d2 n) \<Longrightarrow>
   model_validate X c d1 w = model_validate X c d2 w"
  using validate_fields_cong [of "model_fields c" d1 d2 X w] by (simp add: model_validate_def)

lemma model_validate_names:
  assumes "fst (model_validate X c d w) = Inr vs"
  shows "fst ` set vs \<subseteq> fst ` set (model_fields c)"
proof -
  have "vs = fst (snd (validate_fields X (model_fields c) d w))"
    using assms by (auto simp: model_validate_def split: prod.splits if_splits)
  then show ?thesis using validate_fields_names by simp
qed

subsection \<open>Timestamps\<close>

lemma tables_distinct:
  assumes "c \<in> set tables"
  shows "distinct (map fst (model_fields c))"
proof -
  have "\<forall>c\<in>set tables. distinct (map fst (model_fields c))"
    unfolding tables_list ball_set_Cons ball_set_Nil
    by (intro conjI TrueI)
       (simp_all add: User_fields Item_fields Address_def DeliveryCompany_def PackageItem_def
          Order_def Vehicle_def Driver_def Delivery_def Payment_def Feedback_def Promotion_def)
  with assms show ?thesis by blast
qed

lemma tables_table: "c \<in> set tables \<Longrightarrow> table c"
  by (simp add: tables_def)

lemma timestamp_declarations:
  "stamped_at_creation User ''created_at'' = False" "(field_of User ''created_at'' = None) = True"
  "stamped_at_creation User ''updated_at'' = False" "stamped_on_update User ''updated_at'' = False"
  "(field_of User ''updated_at'' = None) = True"
  "stamped_at_creation Item ''created_at'' = False" "(field_of Item ''created_at'' = None) = True"
  "stamped_at_creation Item ''updated_at'' = False" "stamped_on_update Item ''updated_at'' = False"
  "(field_of Item ''updated_at'' = None) = True"
  "stamped_at_creation Address ''created_at'' = False" "(field_of Address ''created_at'' = None) = True"
  "stamped_at_creation Address ''updated_at'' = False" "stamped_on_update Address ''updated_at'' = False"
  "(field_of Address ''updated_at'' = None) = True"
  "stamped_at_creation DeliveryCompany ''created_at'' = True" "(field_of DeliveryCompany ''created_at'' = None) = False"
  "stamped_at_creation DeliveryCompany ''updated_at'' = True" "stamped_on_update DeliveryCompany ''updated_at'' = True"
  "(field_of DeliveryCompany ''updated_at'' = None) = False"
  "stamped_at_creation PackageItem ''created_at'' = False" "(field_of PackageItem ''created_at'' = None) = True"
  "stamped_at_creation PackageItem ''updated_at'' = False" "stamped_on_update PackageItem ''updated_at'' = False"
  "(field_of PackageItem ''updated_at'' = None) = True"
  "stamped_at_creation Order ''created_at'' = True" "(field_of Order ''created_at'' = None) = False"
  "stamped_at_creation Order ''updated_at'' = True" "stamped_on_update Order ''updated_at'' = True"
  "(field_of Order ''updated_at'' = None) = False"
  "stamped_at_creation Vehicle ''created_at'' = True" "(field_of Vehicle ''created_at'' = None) = False"
  "stamped_at_creation Vehicle ''updated_at'' = True" "stamped_on_update Vehicle ''updated_at'' = True"
  "(field_of Vehicle ''updated_at'' = None) = False"
  "stamped_at_creation Driver ''created_at'' = True" "(field_of Driver ''created_at'' = None) = False"
  "stamped_at_creation Driver ''updated_at'' = True" "stamped_on_update Driver ''updated_at'' = True"
  "(field_of Driver ''updated_at'' = None) = False"
  "stamped_at_creation Delivery ''created_at'' = False" "(field_of Delivery ''created_at'' = None) = True"
  "stamped_at_creation Delivery ''updated_at'' = False" "stamped_on_update Delivery ''updated_at'' = False"
  "(field_of Delivery ''updated_at'' = None) = True"
  "stamped_at_creation Payment ''created_at'' = True" "(field_of Payment ''created_at'' = None) = False"
  "stamped_at_creation Payment ''updated_at'' = False" "stamped_on_update Payment ''updated_at'' = False"
  "(field_of Payment ''updated_at'' = None) = True"
  "stamped_at_creation Feedback ''created_at'' = True" "(field_of Feedback ''created_at'' = None) = False"
  "stamped_at_creation Feedback ''updated_at'' = False" "stamped_on_update Feedback ''updated_at'' = False"
  "(field_of Feedback ''updated_at'' = None) = True"
  "stamped_at_creation Promotion ''created_at'' = True" "(field_of Promotion ''created_at'' = None) = False"
  "stamped_at_creation Promotion ''updated_at'' = True" "stamped_on_update Promotion ''updated_at'' = True"
  "(field_of Promotion ''updated_at'' = None) = False"
  by (simp_all add: stamped_at_creation_def stamped_on_update_def field_of_def User_fields
      Item_fields Address_def DeliveryCompany_def PackageItem_def Order_def Vehicle_def
      Driver_def Delivery_def Payment_def Feedback_def Promotion_def Field_def)

lemma call_factory_world:
  "call_factory g w = (v, w1) \<Longrightarrow> clock w1 = clock w \<and> clock_reads w \<le> clock_reads w1"
  by (cases g) auto

lemma call_factory_snd:
  "clock (snd (call_factory g w)) = clock w \<and>
   clock_reads w \<le> clock_reads (snd (call_factory g w))"
  by (cases g) simp_all

lemma get_default_world:
  "get_default ds w = Some (v, w1) \<Longrightarrow> clock w1 = clock w \<and> clock_reads w \<le> clock_reads w1"
  by (cases ds) (auto dest: call_factory_world)

lemma table_construct_world_Cons:
  "snd (table_construct ((n, f) # fs) d w) =
     (case d n of
        Some v \<Rightarrow> snd (table_construct fs d w)
      | None \<Rightarrow>
          (case get_default (default f) w of
             None \<Rightarrow> snd (table_construct fs d w)
           | Some (v, w1) \<Rightarrow> snd (table_construct fs d w1)))"
  by (simp split: prod.splits option.splits)

lemma table_construct_world:
  "clock (snd (table_construct fs d w)) = clock w \<and>
   clock_reads w \<le> clock_reads (snd (table_construct fs d w))"
proof (induction fs arbitrary: w)
  case Nil
  then show ?case by simp
next
  case (Cons a fs)
  obtain m g where a: "a = (m, g)" by (cases a)
  show ?case
  proof (cases "d m")
    case (Some v)
    then show ?thesis using a Cons.IH [of w]
      by (simp add: table_construct_world_Cons del: table_construct.simps)
  next
    case None
    show ?thesis
    proof (cases "get_default (default g) w")
      case N: None
      then show ?thesis using a None Cons.IH [of w]
        by (simp add: table_construct_world_Cons del: table_construct.simps)
    next
      case (Some p)
      obtain v w1 where p: "p = (v, w1)" by (cases p)
      from get_default_world [of "default g" w v w1] Some p
      have "clock w1 = clock w" "clock_reads w \<le> clock_reads w1" by simp_all
      then show ?thesis using a None Some p Cons.IH [of w1]
        by (simp add: table_construct_world_Cons del: table_construct.simps)
    qed
  qed
qed

lemma table_construct_stamp:
  "distinct (map fst fs) \<Longrightarrow> (n, f) \<in> set fs \<Longrightarrow> d n = None \<Longrightarrow>
   default f = DefaultFactory utcnow \<Longrightarrow>
   \<exists>k. clock_reads w \<le> k \<and> k < clock_reads (snd (table_construct fs d w)) \<and>
       map_of (fst (table_construct fs d w)) n = Some (VDatetime (clock w k))"
proof (induction fs arbitrary: w)
  case Nil
  then show ?case by simp
next
  case (Cons a fs)
  obtain m g where a: "a = (m, g)" by (cases a)
  show ?case
  proof (cases "n = m")
    case True
    with Cons.prems a have g: "f = g" by (auto simp: rev_image_eqI)
    let ?w1 = "w\<lparr>clock_reads := Suc (clock_reads w)\<rparr>"
    have "clock_reads ?w1 \<le> clock_reads (snd (table_construct fs d ?w1))"
      using table_construct_world by blast
    then have "clock_reads w < clock_reads (snd (table_construct fs d ?w1))" by simp
    then show ?thesis using a True g Cons.prems(3,4)
      by (intro exI [of _ "clock_reads w"])
         (simp add: table_construct_world_Cons table_construct_values_Cons
            del: table_construct.simps)
  next
    case False
    with Cons.prems a have in_fs: "(n, f) \<in> set fs" and dist: "distinct (map fst fs)" by auto
    define w1 where "w1 = (case d m of Some v \<Rightarrow> w | None \<Rightarrow>
        (case get_default (default g) w of None \<Rightarrow> w | Some (v, w') \<Rightarrow> w'))"
    have w1: "clock w1 = clock w" "clock_reads w \<le> clock_reads w1"
      using get_default_world [of "default g" w]
      by (auto simp: w1_def split: option.splits)
    have tail: "snd (table_construct (a # fs) d w) = snd (table_construct fs d w1)"
      "map_of (fst (table_construct (a # fs) d w)) n = map_of (fst (table_construct fs d w1)) n"
      using a False
      by (auto simp add: w1_def table_construct_world_Cons table_construct_values_Cons
          simp del: table_construct.simps split: option.splits)
    from Cons.IH [OF dist in_fs Cons.prems(3,4), of w1]
    obtain k where "clock_reads w1 \<le> k" "k < clock_reads (snd (table_construct fs d w1))"
      "map_of (fst (table_construct fs d w1)) n = Some (VDatetime (clock w1 k))"
      by blast
    then show ?thesis using w1 tail by (intro exI [of _ k]) simp
  qed
qed

lemma flush_columns_values_Cons:
  "fst (flush_columns ((n, f) # fs) r ch w) =
     (case ch n of
        Some v \<Rightarrow> (n, v) # fst (flush_columns fs r ch w)
      | None \<Rightarrow>
          (case onupdate f of
             Some g \<Rightarrow> (n, fst (call_factory g w)) # fst (flush_columns fs r ch (snd (call_factory g w)))
           | None \<Rightarrow>
               (case map_of r n of
                  Some v \<Rightarrow> (n, v) # fst (flush_columns fs r ch w)
                | None \<Rightarrow> fst (flush_columns fs r ch w))))"
  by (simp split: prod.splits option.splits)

lemma flush_columns_world_Cons:
  "snd (flush_columns ((n, f) # fs) r ch w) =
     (case ch n of
        Some v \<Rightarrow> snd (flush_columns fs r ch w)
      | None \<Rightarrow>
          (case onupdate f of
             Some g \<Rightarrow> snd (flush_columns fs r ch (snd (call_factory g w)))
           | None \<Rightarrow> snd (flush_columns fs r ch w)))"
  by (simp split: prod.splits option.splits)

lemma flush_columns_world:
  "clock (snd (flush_columns fs r ch w)) = clock w \<and>
   clock_reads w \<le> clock_reads (snd (flush_columns fs r ch w))"
proof (induction fs arbitrary: w)
  case Nil
  then show ?case by simp
next
  case (Cons a fs)
  obtain m g where a: "a = (m, g)" by (cases a)
  define w1 where "w1 = (case ch m of Some v \<Rightarrow> w | None \<Rightarrow>
      (case onupdate g of Some h \<Rightarrow> snd (call_factory h w) | None \<Rightarrow> w))"
  have w1: "clock w1 = clock w" "clock_reads w \<le> clock_reads w1"
    using call_factory_snd [of _ w]
    by (auto simp: w1_def split: option.splits)
  have "snd (flush_columns (a # fs) r ch w) = snd (flush_columns fs r ch w1)"
    using a
    by (simp add: w1_def flush_columns_world_Cons del: flush_columns.simps split: option.splits)
  then show ?case using Cons.IH [of w1] w1 by simp
qed

lemma flush_columns_stamp:
  "distinct (map fst fs) \<Longrightarrow> (n, f) \<in> set fs \<Longrightarrow> ch n = None \<Longrightarrow>
   onupdate f = Some utcnow \<Longrightarrow>
   \<exists>k. clock_reads w \<le> k \<and> k < clock_reads (snd (flush_columns fs r ch w)) \<and>
       map_of (fst (flush_columns fs r ch w)) n = Some (VDatetime (clock w k))"
proof (induction fs arbitrary: w)
  case Nil
  then show ?case by simp
next
  case (Cons a fs)
  obtain m g where a: "a = (m, g)" by (cases a)
  show ?case
  proof (cases "n = m")
    case True
    with Cons.prems a have g: "f = g" by (auto simp: rev_image_eqI)
    let ?w1 = "w\<lparr>clock_reads := Suc (clock_reads w)\<rparr>"
    have "clock_reads ?w1 \<le> clock_reads (snd (flush_columns fs r ch ?w1))"
      using flush_columns_world by blast
    then have "clock_reads w < clock_reads (snd (flush_columns fs r ch ?w1))" by simp
    then show ?thesis using a True g Cons.prems(3,4)
      by (intro exI [of _ "clock_reads w"])
         (simp add: flush_columns_world_Cons flush_columns_values_Cons
            del: flush_columns.simps)
  next
    case False
    with Cons.prems a have in_fs: "(n, f) \<in> set fs" and dist: "distinct (map fst fs)" by auto
    define w1 where "w1 = (case ch m of Some v \<Rightarrow> w | None \<Rightarrow>
        (case onupdate g of Some h \<Rightarrow> snd (call_factory h w) | None \<Rightarrow> w))"
    have w1: "clock w1 = clock w" "clock_reads w \<le> clock_reads w1"
      using call_factory_snd [of _ w]
      by (auto simp: w1_def split: option.splits)
    have tail: "snd (flush_columns (a # fs) r ch w) = snd (flush_columns fs r ch w1)"
      "map_of (fst (flush_columns (a # fs) r ch w)) n = map_of (fst (flush_columns fs r ch w1)) n"
      using a False
      by (auto simp add: w1_def flush_columns_world_Cons flush_columns_values_Cons
          simp del: flush_columns.simps split: option.splits)
    from Cons.IH [OF dist in_fs Cons.prems(3,4), of w1]
    obtain k where "clock_reads w1 \<le> k" "k < clock_reads (snd (flush_columns fs r ch w1))"
      "map_of (fst (flush_columns fs r ch w1)) n = Some (VDatetime (clock w1 k))"
      by blast
    then show ?thesis using w1 tail by (intro exI [of _ k]) simp
  qed
qed

lemma stamped_at_creation_field:
  "stamped_at_creation c n \<Longrightarrow>
   \<exists>f. (n, f) \<in> set (model_fields c) \<and> default f = DefaultFactory utcnow"
  by (auto simp: stamped_at_creation_def field_of_def split: option.splits dest: map_of_SomeD)

lemma stamped_on_update_field:
  "stamped_on_update c n \<Longrightarrow>
   \<exists>f. (n, f) \<in> set (model_fields c) \<and> onupdate f = Some utcnow"
  by (auto simp: stamped_on_update_def field_of_def split: option.splits dest: map_of_SomeD)

lemma init_table_snd:
  "table cls \<Longrightarrow> snd (init X cls d w) = snd (table_construct (model_fields cls) d w)"
  by (simp add: init_def split: prod.splits)

lemma init_stamp:
  assumes c: "c \<in> set tables" and n: "stamped_at_creation c n \<and> d n = None"
  shows "\<exists>k. clock_reads w \<le> k \<and> k < clock_reads (snd (init X c d w)) \<and>
           returns (init X c d w) n (VDatetime (clock w k))"
proof -
  from n obtain f where f: "(n, f) \<in> set (model_fields c)" "default f = DefaultFactory utcnow"
    using stamped_at_creation_field by blast
  have dn: "d n = None" using n by simp
  from table_construct_stamp [where d = d and w = w, OF tables_distinct [OF c] f(1) dn f(2)]
  obtain k where k: "clock_reads w \<le> k"
    "k < clock_reads (snd (table_construct (model_fields c) d w))"
    "map_of (fst (table_construct (model_fields c) d w)) n = Some (VDatetime (clock w k))"
    by blast
  have t: "table c" using c by (rule tables_table)
  show ?thesis
  proof (intro exI [of _ k] conjI)
    show "clock_reads w \<le> k" by (rule k(1))
    show "k < clock_reads (snd (init X c d w))"
      using k(2) by (simp only: init_table_snd [OF t])
    show "returns (init X c d w) n (VDatetime (clock w k))"
      using k(3) by (simp add: returns_def init_table [OF t])
  qed
qed

lemma flush_stamp:
  assumes c: "c \<in> set tables"
    and n: "stamped_on_update c n \<and> changed c r ch \<and> net_changes r ch n = None"
  shows "\<exists>k. clock_reads w \<le> k \<and> k < clock_reads (snd (flush_update c r ch w)) \<and>
           map_of (fst (flush_update c r ch w)) n = Some (VDatetime (clock w k))"
proof -
  from n obtain f where f: "(n, f) \<in> set (model_fields c)" "onupdate f = Some utcnow"
    using stamped_on_update_field by blast
  have nn: "net_changes r ch n = None" and ch: "changed c r ch" using n by simp_all
  have fl: "flush_update c r ch w = flush_columns (model_fields c) r (net_changes r ch) w"
    using ch by (simp add: flush_update_def)
  from flush_columns_stamp [where ch = "net_changes r ch" and w = w and r = r,
      OF tables_distinct [OF c] f(1) nn f(2)]
  show ?thesis unfolding fl .
qed

subsection \<open>Cascading deletes\<close>

lemma class_of_tables:
  "class_of ''User'' = Some User" "class_of ''Item'' = Some Item"
  "class_of ''Address'' = Some Address" "class_of ''DeliveryCompany'' = Some DeliveryCompany"
  "class_of ''PackageItem'' = Some PackageItem" "class_of ''Order'' = Some Order"
  "class_of ''Vehicle'' = Some Vehicle" "class_of ''Driver'' = Some Driver"
  "class_of ''Delivery'' = Some Delivery" "class_of ''Payment'' = Some Payment"
  "class_of ''Feedback'' = Some Feedback" "class_of ''Promotion'' = Some Promotion"
  by (simp_all add: class_of_def classes_def)

lemma delete_cascades_tables:
  "delete_cascades User = [(''items'', (Relationship ''Item'' True)\<lparr>
      back_populates := Some ''owner'', cascade := Some ''delete''\<rparr>)]"
  "delete_cascades Item = []" "delete_cascades Address = []"
  "delete_cascades DeliveryCompany = []"
  "delete_cascades PackageItem = [(''order'', (Relationship ''Order'' False)\<lparr>
      back_populates := Some ''package_items'', cascade := Some ''delete''\<rparr>)]"
  "delete_cascades Order = [(''package_items'', (Relationship ''PackageItem'' True)\<lparr>
      back_populates := Some ''order'', cascade := Some ''delete''\<rparr>)]"
  "delete_cascades Vehicle = []" "delete_cascades Driver = []" "delete_cascades Delivery = []"
  "delete_cascades Payment = []" "delete_cascades Feedback = []" "delete_cascades Promotion = []"
  by (simp_all add: delete_cascades_def User_def Item_def Address_def DeliveryCompany_def
      PackageItem_def Order_def Vehicle_def Driver_def Delivery_def Payment_def Feedback_def
      Promotion_def Relationship_def)

lemma delete_cascades_others:
  "delete_cascades UserBase = []" "delete_cascades UserCreate = []"
  "delete_cascades UserRegister = []" "delete_cascades UserUpdate = []"
  "delete_cascades UserUpdateMe = []" "delete_cascades UpdatePassword = []"
  "delete_cascades UserPublic = []" "delete_cascades ItemBase = []"
  "delete_cascades ItemCreate = []" "delete_cascades ItemUpdate = []"
  "delete_cascades ItemPublic = []"
  by (simp_all add: delete_cascades_def UserBase_def UserCreate_def UserRegister_def
      UserUpdate_def UserUpdateMe_def UpdatePassword_def UserPublic_def ItemBase_def
      ItemCreate_def ItemUpdate_def ItemPublic_def)

lemma cascade_declarations_list:
  "cascade_declarations =
     [(''User'', ''items''), (''PackageItem'', ''order''), (''Order'', ''package_items'')]"
  by (simp add: cascade_declarations_def classes_def delete_cascades_tables
      delete_cascades_others)

lemma fk_columns:
  "fk_column Item ''User'' = Some ''owner_id''"
  "fk_column PackageItem ''Order'' = Some ''order_id''"
  by (simp_all add: fk_column_def tablename_def lower_char_def Item_fields PackageItem_def
      Field_def)

lemma cascade_targets_User:
  "cascade_targets db (''User'', u) =
     (case map_of u ''id'' of
        Some (VUUID i) \<Rightarrow>
          filter (\<lambda>o'. fst o' = ''Item'' \<and> map_of (snd o') ''owner_id'' = Some (VUUID i)) db
      | _ \<Rightarrow> [])"
  by (simp add: cascade_targets_def class_of_tables delete_cascades_tables related_def
      Relationship_def fk_columns split: option.splits pyval.splits)

lemma cascade_targets_Order:
  "cascade_targets db (''Order'', r) =
     (case map_of r ''id'' of
        Some (VUUID i) \<Rightarrow>
          filter (\<lambda>o'. fst o' = ''PackageItem'' \<and> map_of (snd o') ''order_id'' = Some (VUUID i)) db
      | _ \<Rightarrow> [])"
  by (simp add: cascade_targets_def class_of_tables delete_cascades_tables related_def
      Relationship_def fk_columns split: option.splits pyval.splits)

lemma cascade_targets_PackageItem:
  "cascade_targets db (''PackageItem'', p) =
     (case map_of p ''order_id'' of
        Some (VUUID i) \<Rightarrow>
          filter (\<lambda>o'. fst o' = ''Order'' \<and> map_of (snd o') ''id'' = Some (VUUID i)) db
      | _ \<Rightarrow> [])"
  by (simp add: cascade_targets_def class_of_tables delete_cascades_tables related_def
      Relationship_def fk_columns split: option.splits pyval.splits)

lemma cascade_targets_none:
  "cascade_targets db (''Item'', r) = []" "cascade_targets db (''Address'', r) = []"
  "cascade_targets db (''DeliveryCompany'', r) = []" "cascade_targets db (''Vehicle'', r) = []"
  "cascade_targets db (''Driver'', r) = []" "cascade_targets db (''Delivery'', r) = []"
  "cascade_targets db (''Payment'', r) = []" "cascade_targets db (''Feedback'', r) = []"
  "cascade_targets db (''Promotion'', r) = []"
  by (simp_all add: cascade_targets_def class_of_tables delete_cascades_tables)

lemma closed_rtranclp:
  assumes "\<And>b c. R a b \<Longrightarrow> R b c \<Longrightarrow> c = a \<or> R a c"
  shows "R\<^sup>*\<^sup>* a x \<longleftrightarrow> x = a \<or> R a x"
proof
  assume "R\<^sup>*\<^sup>* a x"
  then show "x = a \<or> R a x"
  proof (induction rule: rtranclp_induct)
    case base
    then show ?case by simp
  next
    case (step y z)
    then show ?case using assms by blast
  qed
next
  assume "x = a \<or> R a x"
  then show "R\<^sup>*\<^sup>* a x" by auto
qed

lemma in_case_uuid:
  "x \<in> set (case a of Some (VUUID i) \<Rightarrow> F i | _ \<Rightarrow> []) \<longleftrightarrow>
     (\<exists>i. a = Some (VUUID i) \<and> x \<in> set (F i))"
proof (cases a)
  case None
  then show ?thesis by simp
next
  case (Some v)
  then show ?thesis by (cases v) simp_all
qed

lemma in_targets_User:
  "ob \<in> set (cascade_targets db (''User'', u)) \<longleftrightarrow>
     (\<exists>i. map_of u ''id'' = Some (VUUID i) \<and> ob \<in> set db \<and> fst ob = ''Item'' \<and>
          map_of (snd ob) ''owner_id'' = Some (VUUID i))"
  unfolding cascade_targets_User in_case_uuid by auto

lemma in_targets_Order:
  "ob \<in> set (cascade_targets db (''Order'', r)) \<longleftrightarrow>
     (\<exists>i. map_of r ''id'' = Some (VUUID i) \<and> ob \<in> set db \<and> fst ob = ''PackageItem'' \<and>
          map_of (snd ob) ''order_id'' = Some (VUUID i))"
  unfolding cascade_targets_Order in_case_uuid by auto

lemma in_targets_PackageItem:
  "ob \<in> set (cascade_targets db (''PackageItem'', p)) \<longleftrightarrow>
     (\<exists>i. map_of p ''order_id'' = Some (VUUID i) \<and> ob \<in> set db \<and> fst ob = ''Order'' \<and>
          map_of (snd ob) ''id'' = Some (VUUID i))"
  unfolding cascade_targets_PackageItem in_case_uuid by auto

lemma deletes_closed:
  assumes "\<And>b c. b \<in> set (cascade_targets db a) \<Longrightarrow> c \<in> set (cascade_targets db b) \<Longrightarrow>
             c = a \<or> c \<in> set (cascade_targets db a)"
  shows "deletes db a x \<longleftrightarrow> x = a \<or> x \<in> set (cascade_targets db a)"
  unfolding deletes_def
  by (rule closed_rtranclp) (use assms in blast)

lemma deletes_none:
  "cascade_targets db a = [] \<Longrightarrow> deletes db a x \<longleftrightarrow> x = a"
  using deletes_closed [of db a x] by simp

lemma deletes_User:
  "deletes db (''User'', u) ob \<longleftrightarrow>
     ob = (''User'', u) \<or>
     (\<exists>i. map_of u ''id'' = Some (VUUID i) \<and> ob \<in> set db \<and> fst ob = ''Item'' \<and>
          map_of (snd ob) ''owner_id'' = Some (VUUID i))"
proof -
  have "c = (''User'', u) \<or> c \<in> set (cascade_targets db (''User'', u))"
    if "b \<in> set (cascade_targets db (''User'', u))" "c \<in> set (cascade_targets db b)" for b c
  proof -
    from that(1) have "fst b = ''Item''"
      unfolding in_targets_User by blast
    then have "b = (''Item'', snd b)" by (cases b) simp
    then have "cascade_targets db b = []" using cascade_targets_none(1) by metis
    with that(2) show ?thesis by simp
  qed
  then have "deletes db (''User'', u) ob \<longleftrightarrow>
      ob = (''User'', u) \<or> ob \<in> set (cascade_targets db (''User'', u))"
    by (rule deletes_closed)
  then show ?thesis unfolding in_targets_User .
qed

lemma deletes_Order:
  assumes uniq: "primary_keys_unique db" and r: "(''Order'', r) \<in> set db"
  shows "deletes db (''Order'', r) ob \<longleftrightarrow>
     ob = (''Order'', r) \<or>
     (\<exists>i. map_of r ''id'' = Some (VUUID i) \<and> ob \<in> set db \<and> fst ob = ''PackageItem'' \<and>
          map_of (snd ob) ''order_id'' = Some (VUUID i))"
proof -
  have "c = (''Order'', r) \<or> c \<in> set (cascade_targets db (''Order'', r))"
    if b: "b \<in> set (cascade_targets db (''Order'', r))" and c: "c \<in> set (cascade_targets db b)"
    for b c
  proof -
    from b obtain i where i: "map_of r ''id'' = Some (VUUID i)" "fst b = ''PackageItem''"
      "map_of (snd b) ''order_id'' = Some (VUUID i)"
      unfolding in_targets_Order by blast
    from i(2) have "b = (''PackageItem'', snd b)" by (cases b) simp
    then have "c \<in> set (cascade_targets db (''PackageItem'', snd b))" using c by simp
    with i(3) have "c \<in> set db" "fst c = ''Order''" "map_of (snd c) ''id'' = Some (VUUID i)"
      unfolding in_targets_PackageItem by simp_all
    with uniq r i(1) have "c = (''Order'', r)"
      by (auto simp: primary_keys_unique_def list_all_iff)
    then show ?thesis by simp
  qed
  then have "deletes db (''Order'', r) ob \<longleftrightarrow>
      ob = (''Order'', r) \<or> ob \<in> set (cascade_targets db (''Order'', r))"
    by (rule deletes_closed)
  then show ?thesis unfolding in_targets_Order .
qed

subsection \<open>Unfolding for examples\<close>

lemmas eval_defs = init_def model_validate_def validate_field_def validate_value_def
  check_length_def check_bounds_def Field_def raises_def returns_def accepts_def
  others_accepted_def lib0_def world0_def enum_lookup_def

section \<open>The claims\<close>

text \<open>
  C1 (as amended). Constructing an ItemCreate whose title is the empty string fails with
  a ValidationError (string too short), constructing it with a title longer than 255
  characters fails with a ValidationError (string too long), and any title of length 1
  through 255 is accepted when the other fields are. The persisted Item declares its
  title again, with the maximum length of 255 only, and is a table class: constructing it
  validates nothing and stores the title it is given; validating Item data
  (\<open>model_validate\<close>) rejects a title longer than 255 characters and accepts every
  title of length 0 through 255 when the other fields are accepted.
\<close>

theorem item_title_length:
  assumes t: "d ''title'' = Some (VStr t)"
  shows "(length t < 1 \<longrightarrow> raises (init X ItemCreate d w) ''title'' string_too_short) \<and>
         (255 < length t \<longrightarrow> raises (init X ItemCreate d w) ''title'' string_too_long) \<and>
         (1 \<le> length t \<and> length t \<le> 255 \<and> others_accepted X ItemCreate d ''title'' \<longrightarrow>
            returns (init X ItemCreate d w) ''title'' (VStr t)) \<and>
         returns (init X Item d w) ''title'' (VStr t) \<and>
         (255 < length t \<longrightarrow> raises (model_validate X Item d w) ''title'' string_too_long) \<and>
         (length t \<le> 255 \<and> others_accepted X Item d ''title'' \<longrightarrow>
            returns (model_validate X Item d w) ''title'' (VStr t))"
proof -
  let ?c = "(Field TStr)\<lparr>min_length := Some 1, max_length := Some 255\<rparr>"
  let ?i = "(Field TStr)\<lparr>max_length := Some 255\<rparr>"
  have c: "(''title'', ?c) \<in> set (model_fields ItemCreate)"
    by (simp add: ItemCreate_fields)
  have i: "(''title'', ?i) \<in> set (model_fields Item)"
    by (simp add: Item_fields)
  have dc: "distinct (map fst (model_fields ItemCreate))" by (simp add: ItemCreate_fields)
  have di: "distinct (map fst (model_fields Item))" by (simp add: Item_fields)
  have nt: "\<not> table ItemCreate" by (simp add: ItemCreate_def)
  have ti: "table Item" by (simp add: Item_def)
  have vc: "validate_value X ?c (VStr t) = check_length ?c t"
    by (rule validate_value_str) (simp add: Field_def)
  have vi: "validate_value X ?i (VStr t) = check_length ?i t"
    by (rule validate_value_str) (simp add: Field_def)
  have 1: "raises (init X ItemCreate d w) ''title'' string_too_short" if "length t < 1"
    unfolding init_not_table [OF nt]
    using that by (intro raises_supplied [where d = d, OF c t]) (simp only: vc, auto simp add: check_length_def Field_def)
  have 2: "raises (init X ItemCreate d w) ''title'' string_too_long" if "255 < length t"
    unfolding init_not_table [OF nt]
    using that by (intro raises_supplied [where d = d, OF c t]) (simp only: vc, auto simp add: check_length_def Field_def)
  have 3: "returns (init X ItemCreate d w) ''title'' (VStr t)"
    if "1 \<le> length t" "length t \<le> 255" "others_accepted X ItemCreate d ''title''"
    unfolding init_not_table [OF nt]
    using that by (intro returns_supplied [where d = d, OF dc c t]) (simp only: vc, auto simp add: check_length_def Field_def)
  have 4: "returns (init X Item d w) ''title'' (VStr t)"
    by (rule returns_table_supplied [where d = d, OF ti di i t])
  have 5: "raises (model_validate X Item d w) ''title'' string_too_long" if "255 < length t"
    using that by (intro raises_supplied [where d = d, OF i t]) (simp only: vi, simp add: check_length_def Field_def)
  have 6: "returns (model_validate X Item d w) ''title'' (VStr t)"
    if "length t \<le> 255" "others_accepted X Item d ''title''"
    using that by (intro returns_supplied [where d = d, OF di i t]) (simp only: vi, simp add: check_length_def Field_def)
  from 1 2 3 4 5 6 show ?thesis by blast
qed

text \<open>The theorem at an empty title, a title of 256 characters and the title Lamp.\<close>

theorem item_title_length_witness:
  "raises (init lib0 ItemCreate [''title'' \<mapsto> VStr ''''] world0) ''title'' string_too_short \<and>
   raises (init lib0 ItemCreate [''title'' \<mapsto> VStr (replicate 256 CHR ''a'')] world0)
     ''title'' string_too_long \<and>
   returns (init lib0 ItemCreate [''title'' \<mapsto> VStr ''Lamp''] world0) ''title'' (VStr ''Lamp'') \<and>
   returns (init lib0 Item [''title'' \<mapsto> VStr ''Lamp''] world0) ''title'' (VStr ''Lamp'') \<and>
   raises (model_validate lib0 Item [''title'' \<mapsto> VStr (replicate 256 CHR ''a'')] world0)
     ''title'' string_too_long \<and>
   returns (model_validate lib0 Item [''title'' \<mapsto> VStr ''Lamp'', ''owner_id'' \<mapsto> VUUID 1] world0)
     ''title'' (VStr ''Lamp'')"
  using item_title_length [of "[''title'' \<mapsto> VStr '''']" "''''" lib0 world0]
    item_title_length [of "[''title'' \<mapsto> VStr (replicate 256 CHR ''a'')]"
      "replicate 256 CHR ''a''" lib0 world0]
    item_title_length [of "[''title'' \<mapsto> VStr ''Lamp'']" "''Lamp''" lib0 world0]
    item_title_length [of "[''title'' \<mapsto> VStr ''Lamp'', ''owner_id'' \<mapsto> VUUID 1]" "''Lamp''"
      lib0 world0]
  by (simp add: ItemCreate_fields Item_fields others_accepted_def accepts_def
      validate_value_def Field_def)

text \<open>
  The claim as stated fails for the persisted Item: with an empty title, constructing it
  and validating it both return the instance.
\<close>

theorem item_empty_title_counterexample:
  "fst (init lib0 Item [''title'' \<mapsto> VStr '''', ''owner_id'' \<mapsto> VUUID 1] world0)
     = Inr [(''title'', VStr ''''), (''description'', VNone), (''id'', VUUID 0),
            (''owner_id'', VUUID 1)] \<and>
   fst (model_validate lib0 Item [''title'' \<mapsto> VStr '''', ''owner_id'' \<mapsto> VUUID 1] world0)
     = Inr [(''title'', VStr ''''), (''description'', VNone), (''id'', VUUID 0),
            (''owner_id'', VUUID 1)]"
  by (simp add: Item_fields eval_defs)

text \<open>
  Where the cascade is declared on the parent side, a delete does what is expected of
  it. Deleting a User deletes it and all the Items it owns, and nothing else; deleting
  an Order deletes it and all its PackageItems, and nothing else (the ids being
  unique); deleting an Item, an Address, a DeliveryCompany, a Vehicle, a Driver, a
  Delivery, a Payment, a Feedback or a Promotion deletes no other record.
\<close>

lemma parent_side_cascades:
  "(deletes db (''User'', u) ob \<longleftrightarrow>
      ob = (''User'', u) \<or>
      (\<exists>i. map_of u ''id'' = Some (VUUID i) \<and> ob \<in> set db \<and> fst ob = ''Item'' \<and>
           map_of (snd ob) ''owner_id'' = Some (VUUID i))) \<and>
   (primary_keys_unique db \<and> (''Order'', r) \<in> set db \<longrightarrow>
      (deletes db (''Order'', r) ob \<longleftrightarrow>
         ob = (''Order'', r) \<or>
         (\<exists>i. map_of r ''id'' = Some (VUUID i) \<and> ob \<in> set db \<and> fst ob = ''PackageItem'' \<and>
              map_of (snd ob) ''order_id'' = Some (VUUID i)))) \<and>
   (\<forall>c\<in>set tables. cls_name c \<notin> {''User'', ''Order'', ''PackageItem''} \<longrightarrow>
      (deletes db (cls_name c, r) ob \<longleftrightarrow> ob = (cls_name c, r)))"
proof (intro conjI)
  show "deletes db (''User'', u) ob \<longleftrightarrow>
      ob = (''User'', u) \<or>
      (\<exists>i. map_of u ''id'' = Some (VUUID i) \<and> ob \<in> set db \<and> fst ob = ''Item'' \<and>
           map_of (snd ob) ''owner_id'' = Some (VUUID i))"
    by (rule deletes_User)
  show "primary_keys_unique db \<and> (''Order'', r) \<in> set db \<longrightarrow>
      (deletes db (''Order'', r) ob \<longleftrightarrow>
         ob = (''Order'', r) \<or>
         (\<exists>i. map_of r ''id'' = Some (VUUID i) \<and> ob \<in> set db \<and> fst ob = ''PackageItem'' \<and>
              map_of (snd ob) ''order_id'' = Some (VUUID i)))"
    using deletes_Order by blast
  show "\<forall>c\<in>set tables. cls_name c \<notin> {''User'', ''Order'', ''PackageItem''} \<longrightarrow>
      (deletes db (cls_name c, r) ob \<longleftrightarrow> ob = (cls_name c, r))"
    unfolding tables_list ball_set_Cons ball_set_Nil
    by (intro conjI TrueI) (simp_all add: deletes_none cascade_targets_none)
qed

text \<open>
  In the example database: deleting the user deletes her item and not the item of the
  other user; deleting the order deletes its two packages and not the user.
\<close>

lemma parent_side_cascades_example:
  "deletes db0 user1 item1 \<and> \<not> deletes db0 user1 item2 \<and>
   deletes db0 order1 package1 \<and> deletes db0 order1 package2 \<and> \<not> deletes db0 order1 user1"
proof -
  have uniq: "primary_keys_unique db0"
    by (simp add: primary_keys_unique_def db0_def order1_def package1_def package2_def
        user1_def item1_def item2_def)
  have o: "(''Order'', snd order1) \<in> set db0" by (simp add: db0_def order1_def)
  have 1: "deletes db0 user1 item1" "\<not> deletes db0 user1 item2"
    using parent_side_cascades [of db0 "snd user1" item1 "snd order1"]
      parent_side_cascades [of db0 "snd user1" item2 "snd order1"]
    by (simp_all add: db0_def order1_def package1_def package2_def user1_def item1_def item2_def)
  have 2: "deletes db0 order1 package1" "deletes db0 order1 package2" "\<not> deletes db0 order1 user1"
    using parent_side_cascades [of db0 "snd user1" package1 "snd order1"]
      parent_side_cascades [of db0 "snd user1" package2 "snd order1"]
      parent_side_cascades [of db0 "snd user1" user1 "snd order1"] uniq o
    by (simp_all add: db0_def order1_def package1_def package2_def user1_def item1_def item2_def)
  from 1 2 show ?thesis by blast
qed

text \<open>
  C2. The code at the input where the claim fails. The claim has exactly two cascading
  relationships, User.items and Order.package_items, and no record deleted with a
  PackageItem. The module declares a third, PackageItem.order, on the child side, where
  the sibling Item.owner declares none: in the example database, deleting the
  PackageItem package1 deletes its Order order1 and, with it, the other PackageItem
  package2 of that order, while deleting the Item item1 leaves its owner user1.
\<close>

theorem package_item_delete_cascades:
  "cascade_declarations =
     [(''User'', ''items''), (''PackageItem'', ''order''), (''Order'', ''package_items'')] \<and>
   deletes db0 package1 order1 \<and> deletes db0 package1 package2 \<and>
   \<not> deletes db0 item1 user1"
proof -
  have 1: "order1 \<in> set (cascade_targets db0 package1)"
    by (simp add: package1_def in_targets_PackageItem) (simp add: db0_def order1_def)
  have 2: "package2 \<in> set (cascade_targets db0 order1)"
    by (simp add: order1_def in_targets_Order) (simp add: db0_def package2_def)
  have 3: "deletes db0 package1 order1"
    unfolding deletes_def using 1 by (rule r_into_rtranclp)
  from 3 have 4: "deletes db0 package1 package2"
    unfolding deletes_def using 2 by (rule rtranclp.rtrancl_into_rtrancl)
  have 5: "\<not> deletes db0 item1 user1"
    by (simp add: item1_def user1_def deletes_none cascade_targets_none)
  from 3 4 5 show ?thesis by (simp add: cascade_declarations_list)
qed
text \<open>
  C3 (as amended). Of the persisted entities, DeliveryCompany, Order, Vehicle, Driver,
  Payment, Feedback and Promotion carry a created_at field stamped at construction time,
  and DeliveryCompany, Order, Vehicle, Driver and Promotion carry an updated_at field
  stamped at construction and stamped again on update; User, Item, Address, PackageItem
  and Delivery carry neither field, and Payment and Feedback carry no updated_at.
  Stamped at construction: an instance constructed without the field holds a reading of
  the clock taken during the construction. Stamped on update: whenever a row is written
  with a change that does not itself set the field to a new value, the field holds a
  reading of the clock taken during the write.
\<close>

theorem timestamps:
  "map cls_name (filter (\<lambda>c. stamped_at_creation c ''created_at'') tables) =
     [''DeliveryCompany'', ''Order'', ''Vehicle'', ''Driver'', ''Payment'', ''Feedback'',
      ''Promotion''] \<and>
   map cls_name (filter (\<lambda>c. stamped_at_creation c ''updated_at'' \<and>
       stamped_on_update c ''updated_at'') tables) =
     [''DeliveryCompany'', ''Order'', ''Vehicle'', ''Driver'', ''Promotion''] \<and>
   map cls_name (filter (\<lambda>c. field_of c ''created_at'' = None) tables) =
     [''User'', ''Item'', ''Address'', ''PackageItem'', ''Delivery''] \<and>
   map cls_name (filter (\<lambda>c. field_of c ''updated_at'' = None) tables) =
     [''User'', ''Item'', ''Address'', ''PackageItem'', ''Delivery'', ''Payment'', ''Feedback''] \<and>
   (\<forall>c\<in>set tables. \<forall>n. stamped_at_creation c n \<and> d n = None \<longrightarrow>
      (\<exists>k. clock_reads w \<le> k \<and> k < clock_reads (snd (init X c d w)) \<and>
           returns (init X c d w) n (VDatetime (clock w k)))) \<and>
   (\<forall>c\<in>set tables. \<forall>n. stamped_on_update c n \<and> changed c r ch \<and> net_changes r ch n = None \<longrightarrow>
      (\<exists>k. clock_reads w \<le> k \<and> k < clock_reads (snd (flush_update c r ch w)) \<and>
           map_of (fst (flush_update c r ch w)) n = Some (VDatetime (clock w k))))"
proof (intro conjI ballI allI impI)
  show "map cls_name (filter (\<lambda>c. stamped_at_creation c ''created_at'') tables) =
     [''DeliveryCompany'', ''Order'', ''Vehicle'', ''Driver'', ''Payment'', ''Feedback'',
      ''Promotion'']"
    by (simp add: tables_list timestamp_declarations)
  show "map cls_name (filter (\<lambda>c. stamped_at_creation c ''updated_at'' \<and>
       stamped_on_update c ''updated_at'') tables) =
     [''DeliveryCompany'', ''Order'', ''Vehicle'', ''Driver'', ''Promotion'']"
    by (simp add: tables_list timestamp_declarations)
  show "map cls_name (filter (\<lambda>c. field_of c ''created_at'' = None) tables) =
     [''User'', ''Item'', ''Address'', ''PackageItem'', ''Delivery'']"
    by (simp add: tables_list timestamp_declarations)
  show "map cls_name (filter (\<lambda>c. field_of c ''updated_at'' = None) tables) =
     [''User'', ''Item'', ''Address'', ''PackageItem'', ''Delivery'', ''Payment'', ''Feedback'']"
    by (simp add: tables_list timestamp_declarations)
next
  fix c n
  assume "c \<in> set tables" and "stamped_at_creation c n \<and> d n = None"
  then show "\<exists>k. clock_reads w \<le> k \<and> k < clock_reads (snd (init X c d w)) \<and>
           returns (init X c d w) n (VDatetime (clock w k))"
    by (rule init_stamp)
next
  fix c n
  assume "c \<in> set tables"
    and "stamped_on_update c n \<and> changed c r ch \<and> net_changes r ch n = None"
  then show "\<exists>k. clock_reads w \<le> k \<and> k < clock_reads (snd (flush_update c r ch w)) \<and>
           map_of (fst (flush_update c r ch w)) n = Some (VDatetime (clock w k))"
    by (rule flush_stamp)
qed

text \<open>
  The theorem for a car constructed in the example world, and for the write that makes
  it unavailable: created_at is the first reading of the clock, 1000, and updated_at,
  1001 after the construction, is 1002 after the write.
\<close>

theorem timestamps_witness:
  "(\<exists>k. clock_reads world0 \<le> k \<and>
        k < clock_reads (snd (init lib0 Vehicle
              [''type'' \<mapsto> VEnum (EVehicleType CAR), ''registration_number'' \<mapsto> VStr ''AB-1'',
               ''capacity'' \<mapsto> VFloat 2] world0)) \<and>
        returns (init lib0 Vehicle
              [''type'' \<mapsto> VEnum (EVehicleType CAR), ''registration_number'' \<mapsto> VStr ''AB-1'',
               ''capacity'' \<mapsto> VFloat 2] world0) ''created_at'' (VDatetime (clock world0 k))) \<and>
   init lib0 Vehicle
       [''type'' \<mapsto> VEnum (EVehicleType CAR), ''registration_number'' \<mapsto> VStr ''AB-1'',
        ''capacity'' \<mapsto> VFloat 2] world0
     = (Inr [(''id'', VUUID 0), (''type'', VEnum (EVehicleType CAR)),
             (''registration_number'', VStr ''AB-1''), (''capacity'', VFloat 2),
             (''current_location'', VNone), (''is_available'', VBool True),
             (''created_at'', VDatetime 1000), (''updated_at'', VDatetime 1001)],
        world0\<lparr>rng_calls := 1, clock_reads := 2\<rparr>) \<and>
   (\<exists>k. clock_reads (world0\<lparr>rng_calls := 1, clock_reads := 2\<rparr>) \<le> k \<and>
        k < clock_reads (snd (flush_update Vehicle
              [(''id'', VUUID 0), (''type'', VEnum (EVehicleType CAR)),
               (''registration_number'', VStr ''AB-1''), (''capacity'', VFloat 2),
               (''current_location'', VNone), (''is_available'', VBool True),
               (''created_at'', VDatetime 1000), (''updated_at'', VDatetime 1001)]
              [''is_available'' \<mapsto> VBool False]
              (world0\<lparr>rng_calls := 1, clock_reads := 2\<rparr>))) \<and>
        map_of (fst (flush_update Vehicle
              [(''id'', VUUID 0), (''type'', VEnum (EVehicleType CAR)),
               (''registration_number'', VStr ''AB-1''), (''capacity'', VFloat 2),
               (''current_location'', VNone), (''is_available'', VBool True),
               (''created_at'', VDatetime 1000), (''updated_at'', VDatetime 1001)]
              [''is_available'' \<mapsto> VBool False]
              (world0\<lparr>rng_calls := 1, clock_reads := 2\<rparr>))) ''updated_at''
          = Some (VDatetime (clock (world0\<lparr>rng_calls := 1, clock_reads := 2\<rparr>) k))) \<and>
   fst (flush_update Vehicle
       [(''id'', VUUID 0), (''type'', VEnum (EVehicleType CAR)),
        (''registration_number'', VStr ''AB-1''), (''capacity'', VFloat 2),
        (''current_location'', VNone), (''is_available'', VBool True),
        (''created_at'', VDatetime 1000), (''updated_at'', VDatetime 1001)]
       [''is_available'' \<mapsto> VBool False]
       (world0\<lparr>rng_calls := 1, clock_reads := 2\<rparr>))
     = [(''id'', VUUID 0), (''type'', VEnum (EVehicleType CAR)),
        (''registration_number'', VStr ''AB-1''), (''capacity'', VFloat 2),
        (''current_location'', VNone), (''is_available'', VBool False),
        (''created_at'', VDatetime 1000), (''updated_at'', VDatetime 1002)]"
proof -
  let ?d = "[''type'' \<mapsto> VEnum (EVehicleType CAR), ''registration_number'' \<mapsto> VStr ''AB-1'',
               ''capacity'' \<mapsto> VFloat 2]"
  let ?r = "[(''id'', VUUID 0), (''type'', VEnum (EVehicleType CAR)),
               (''registration_number'', VStr ''AB-1''), (''capacity'', VFloat 2),
               (''current_location'', VNone), (''is_available'', VBool True),
               (''created_at'', VDatetime 1000), (''updated_at'', VDatetime 1001)]"
  let ?ch = "[''is_available'' \<mapsto> VBool False]"
  let ?w = "world0\<lparr>rng_calls := 1, clock_reads := 2\<rparr>"
  have v: "Vehicle \<in> set tables" by (simp add: tables_list)
  have fields: "model_fields Vehicle = [
      (''id'', (Field TUUID)\<lparr>default := DefaultFactory uuid4, primary_key := True\<rparr>),
      (''type'', Field (TEnum VehicleType)),
      (''registration_number'', (Field TStr)\<lparr>max_length := Some 50\<rparr>),
      (''capacity'', Field TFloat),
      (''current_location'', (Field TStr)\<lparr>optional := True, default := Default VNone,
          max_length := Some 255\<rparr>),
      (''is_available'', (Field TBool)\<lparr>default := Default (VBool True)\<rparr>),
      (''created_at'', (Field TDatetime)\<lparr>default := DefaultFactory utcnow\<rparr>),
      (''updated_at'', (Field TDatetime)\<lparr>default := DefaultFactory utcnow,
          onupdate := Some utcnow\<rparr>)]"
    by (simp add: Vehicle_def)
  have ch: "changed Vehicle ?r ?ch" "net_changes ?r ?ch ''updated_at'' = None"
    by (simp_all add: changed_def net_changes_def fields)
  have 1: "\<exists>k. clock_reads world0 \<le> k \<and> k < clock_reads (snd (init lib0 Vehicle ?d world0)) \<and>
        returns (init lib0 Vehicle ?d world0) ''created_at'' (VDatetime (clock world0 k))"
    using timestamps [of ?d world0 lib0 ?r ?ch] v
    by (simp add: timestamp_declarations)
  have 2: "\<exists>k. clock_reads ?w \<le> k \<and> k < clock_reads (snd (flush_update Vehicle ?r ?ch ?w)) \<and>
        map_of (fst (flush_update Vehicle ?r ?ch ?w)) ''updated_at''
          = Some (VDatetime (clock ?w k))"
    using timestamps [of ?d ?w lib0 ?r ?ch] v ch
    by (simp add: timestamp_declarations)
  have 3: "init lib0 Vehicle ?d world0 = (Inr ?r, ?w)"
    by (simp add: init_def fields Field_def world0_def)
  have 4: "fst (flush_update Vehicle ?r ?ch ?w) =
      [(''id'', VUUID 0), (''type'', VEnum (EVehicleType CAR)),
        (''registration_number'', VStr ''AB-1''), (''capacity'', VFloat 2),
        (''current_location'', VNone), (''is_available'', VBool False),
        (''created_at'', VDatetime 1000), (''updated_at'', VDatetime 1002)]"
    using ch(1) by (simp add: flush_update_def net_changes_def fields Field_def world0_def)
  from 1 2 3 4 show ?thesis by blast
qed

text \<open>
  The claim as stated fails: Delivery is a persisted entity with neither a created_at
  nor an updated_at field, and Payment is one with no updated_at field; a Delivery, once
  constructed, holds no value under either name.
\<close>

theorem delivery_timestamps_counterexample:
  "table Delivery \<and> field_of Delivery ''created_at'' = None \<and>
   field_of Delivery ''updated_at'' = None \<and>
   table Payment \<and> field_of Payment ''updated_at'' = None \<and>
   fst (init lib0 Delivery
       [''order_id'' \<mapsto> VUUID 1, ''company_id'' \<mapsto> VUUID 2, ''pickup_address_id'' \<mapsto> VUUID 3,
        ''delivery_address_id'' \<mapsto> VUUID 4, ''status'' \<mapsto> VEnum (EDeliveryStatus D_ASSIGNED)]
       world0)
     = Inr [(''id'', VUUID 0), (''order_id'', VUUID 1), (''driver_id'', VNone),
            (''vehicle_id'', VNone), (''company_id'', VUUID 2), (''pickup_address_id'', VUUID 3),
            (''delivery_address_id'', VUUID 4), (''status'', VEnum (EDeliveryStatus D_ASSIGNED)),
            (''started_at'', VNone), (''delivered_at'', VNone)]"
proof -
  have t: "table Delivery" by simp
  have "fst (init lib0 Delivery
       [''order_id'' \<mapsto> VUUID 1, ''company_id'' \<mapsto> VUUID 2, ''pickup_address_id'' \<mapsto> VUUID 3,
        ''delivery_address_id'' \<mapsto> VUUID 4, ''status'' \<mapsto> VEnum (EDeliveryStatus D_ASSIGNED)]
       world0)
     = Inr [(''id'', VUUID 0), (''order_id'', VUUID 1), (''driver_id'', VNone),
            (''vehicle_id'', VNone), (''company_id'', VUUID 2), (''pickup_address_id'', VUUID 3),
            (''delivery_address_id'', VUUID 4), (''status'', VEnum (EDeliveryStatus D_ASSIGNED)),
            (''started_at'', VNone), (''delivered_at'', VNone)]"
    unfolding init_table [OF t] by (simp add: Delivery_def Field_def world0_def)
  then show ?thesis by (simp add: timestamp_declarations)
qed

text \<open>
  C4. UserPublic has no hashed_password field: its fields are those of UserBase and the
  id. For every pair of User records that agree on the fields of UserBase and on the id,
  whatever their hashed passwords, the Public projections are equal, and a Public
  projection holds no value under hashed_password.
\<close>

theorem user_public_hides_password:
  "map fst (model_fields UserPublic) = map fst (model_fields UserBase) @ [''id''] \<and>
   ''hashed_password'' \<notin> set (map fst (model_fields UserPublic)) \<and>
   ((\<forall>n\<in>set (map fst (model_fields UserBase) @ [''id'']). attributes u1 n = attributes u2 n) \<longrightarrow>
      model_validate X UserPublic (attributes u1) w = model_validate X UserPublic (attributes u2) w) \<and>
   (\<forall>vs. fst (model_validate X UserPublic (attributes u1) w) = Inr vs \<longrightarrow>
      map_of vs ''hashed_password'' = None)"
proof (intro conjI impI allI)
  show names: "map fst (model_fields UserPublic) = map fst (model_fields UserBase) @ [''id'']"
    by (simp add: UserPublic_fields UserBase_def)
  show no: "''hashed_password'' \<notin> set (map fst (model_fields UserPublic))"
    by (simp add: UserPublic_fields)
  show "model_validate X UserPublic (attributes u1) w = model_validate X UserPublic (attributes u2) w"
    if "\<forall>n\<in>set (map fst (model_fields UserBase) @ [''id'']). attributes u1 n = attributes u2 n"
  proof (rule model_validate_cong)
    fix n assume "n \<in> fst ` set (model_fields UserPublic)"
    then have "n \<in> set (map fst (model_fields UserBase) @ [''id''])"
      unfolding names [symmetric] by simp
    with that show "attributes u1 n = attributes u2 n" by blast
  qed
  show "map_of vs ''hashed_password'' = None"
    if "fst (model_validate X UserPublic (attributes u1) w) = Inr vs" for vs
  proof -
    have "fst ` set vs \<subseteq> fst ` set (model_fields UserPublic)"
      using that by (rule model_validate_names)
    with no have "''hashed_password'' \<notin> fst ` set vs" by auto
    then show ?thesis by (simp add: map_of_eq_None_iff)
  qed
qed

text \<open>
  The theorem for two records of the same user that differ in the hashed password only:
  both project to the same instance of UserPublic, of five fields.
\<close>

theorem user_public_hides_password_witness:
  "fst (model_validate lib0 UserPublic (attributes
      [(''email'', VStr ''ann@example.com''), (''is_active'', VBool True),
       (''is_superuser'', VBool False), (''full_name'', VNone), (''id'', VUUID 7),
       (''hashed_password'', VStr ''hash one'')]) world0)
     = Inr [(''email'', VStr ''ann@example.com''), (''is_active'', VBool True),
            (''is_superuser'', VBool False), (''full_name'', VNone), (''id'', VUUID 7)] \<and>
   model_validate lib0 UserPublic (attributes
      [(''email'', VStr ''ann@example.com''), (''is_active'', VBool True),
       (''is_superuser'', VBool False), (''full_name'', VNone), (''id'', VUUID 7),
       (''hashed_password'', VStr ''hash one'')]) world0
     = model_validate lib0 UserPublic (attributes
      [(''email'', VStr ''ann@example.com''), (''is_active'', VBool True),
       (''is_superuser'', VBool False), (''full_name'', VNone), (''id'', VUUID 7),
       (''hashed_password'', VStr ''hash two'')]) world0"
proof
  show "fst (model_validate lib0 UserPublic (attributes
      [(''email'', VStr ''ann@example.com''), (''is_active'', VBool True),
       (''is_superuser'', VBool False), (''full_name'', VNone), (''id'', VUUID 7),
       (''hashed_password'', VStr ''hash one'')]) world0)
     = Inr [(''email'', VStr ''ann@example.com''), (''is_active'', VBool True),
            (''is_superuser'', VBool False), (''full_name'', VNone), (''id'', VUUID 7)]"
    by (simp add: UserPublic_fields attributes_def eval_defs)
  show "model_validate lib0 UserPublic (attributes
      [(''email'', VStr ''ann@example.com''), (''is_active'', VBool True),
       (''is_superuser'', VBool False), (''full_name'', VNone), (''id'', VUUID 7),
       (''hashed_password'', VStr ''hash one'')]) world0
     = model_validate lib0 UserPublic (attributes
      [(''email'', VStr ''ann@example.com''), (''is_active'', VBool True),
       (''is_superuser'', VBool False), (''full_name'', VNone), (''id'', VUUID 7),
       (''hashed_password'', VStr ''hash two'')]) world0"
    using user_public_hides_password [of
        "[(''email'', VStr ''ann@example.com''), (''is_active'', VBool True),
          (''is_superuser'', VBool False), (''full_name'', VNone), (''id'', VUUID 7),
          (''hashed_password'', VStr ''hash one'')]"
        "[(''email'', VStr ''ann@example.com''), (''is_active'', VBool True),
          (''is_superuser'', VBool False), (''full_name'', VNone), (''id'', VUUID 7),
          (''hashed_password'', VStr ''hash two'')]" lib0 world0]
    by (simp add: UserBase_def attributes_def)
qed

text \<open>
  C5 (as amended). The enum-valued fields of the persisted entities are Order.status,
  Vehicle.type, Delivery.status, Payment.payment_method and Payment.payment_status, and
  the declared sets of values are exactly: OrderStatus pending, confirmed, in_transit,
  delivered, cancelled; DeliveryStatus assigned, in_transit, delivered, cancelled;
  PaymentStatus pending, successful, failed; PaymentMethod credit_card, paypal, crypto,
  bank_transfer; VehicleType bike, car, truck, airplane, ship. For each of these fields,
  validating data (\<open>model_validate\<close>) with a string outside the declared set fails
  with a ValidationError, and the value of a member is accepted, as that member, when
  the other fields are accepted. The five fields belong to table classes: constructing an
  instance validates nothing and stores the string it is given.
\<close>

theorem enum_fields_closed:
  "map (\<lambda>(c, n, e). (cls_name c, n, e)) enum_fields =
     [(''Order'', ''status'', OrderStatus), (''Vehicle'', ''type'', VehicleType),
      (''Delivery'', ''status'', DeliveryStatus), (''Payment'', ''payment_method'', PaymentMethod),
      (''Payment'', ''payment_status'', PaymentStatus)] \<and>
   member_value ` set (members OrderStatus) =
     {''pending'', ''confirmed'', ''in_transit'', ''delivered'', ''cancelled''} \<and>
   member_value ` set (members DeliveryStatus) =
     {''assigned'', ''in_transit'', ''delivered'', ''cancelled''} \<and>
   member_value ` set (members PaymentStatus) = {''pending'', ''successful'', ''failed''} \<and>
   member_value ` set (members PaymentMethod) =
     {''credit_card'', ''paypal'', ''crypto'', ''bank_transfer''} \<and>
   member_value ` set (members VehicleType) = {''bike'', ''car'', ''truck'', ''airplane'', ''ship''} \<and>
   (\<forall>(c, n, e)\<in>set enum_fields.
      (s \<notin> member_value ` set (members e) \<longrightarrow>
         raises (model_validate X c (d(n \<mapsto> VStr s)) w) n enum_error) \<and>
      (\<forall>m\<in>set (members e). others_accepted X c d n \<longrightarrow>
         returns (model_validate X c (d(n \<mapsto> VStr (member_value m))) w) n (VEnum m)) \<and>
      returns (init X c (d(n \<mapsto> VStr s)) w) n (VStr s))"
proof (intro conjI)
  show "map (\<lambda>(c, n, e). (cls_name c, n, e)) enum_fields =
     [(''Order'', ''status'', OrderStatus), (''Vehicle'', ''type'', VehicleType),
      (''Delivery'', ''status'', DeliveryStatus), (''Payment'', ''payment_method'', PaymentMethod),
      (''Payment'', ''payment_status'', PaymentStatus)]"
    by (simp add: enum_fields_list)
  show "member_value ` set (members OrderStatus) =
     {''pending'', ''confirmed'', ''in_transit'', ''delivered'', ''cancelled''}"
    by simp
  show "member_value ` set (members DeliveryStatus) =
     {''assigned'', ''in_transit'', ''delivered'', ''cancelled''}"
    by simp
  show "member_value ` set (members PaymentStatus) = {''pending'', ''successful'', ''failed''}"
    by simp
  show "member_value ` set (members PaymentMethod) =
     {''credit_card'', ''paypal'', ''crypto'', ''bank_transfer''}"
    by simp
  show "member_value ` set (members VehicleType) = {''bike'', ''car'', ''truck'', ''airplane'', ''ship''}"
    by simp
  have o: "(''status'', Field (TEnum OrderStatus)) \<in> set (model_fields Order)"
    "distinct (map fst (model_fields Order))"
    by (simp_all add: Order_def)
  have v: "(''type'', Field (TEnum VehicleType)) \<in> set (model_fields Vehicle)"
    "distinct (map fst (model_fields Vehicle))"
    by (simp_all add: Vehicle_def)
  have dl: "(''status'', Field (TEnum DeliveryStatus)) \<in> set (model_fields Delivery)"
    "distinct (map fst (model_fields Delivery))"
    by (simp_all add: Delivery_def)
  have p: "(''payment_method'', Field (TEnum PaymentMethod)) \<in> set (model_fields Payment)"
    "(''payment_status'', Field (TEnum PaymentStatus)) \<in> set (model_fields Payment)"
    "distinct (map fst (model_fields Payment))"
    by (simp_all add: Payment_def)
  have a: "annotation (Field (TEnum e)) = TEnum e" for e by (simp add: Field_def)
  have t: "table Order" "table Vehicle" "table Delivery" "table Payment" by simp_all
  note 1 = enum_field_closed [OF o(1) a o(2) t(1), of s X d w]
  note 2 = enum_field_closed [OF v(1) a v(2) t(2), of s X d w]
  note 3 = enum_field_closed [OF dl(1) a dl(2) t(3), of s X d w]
  note 4 = enum_field_closed [OF p(1) a p(3) t(4), of s X d w]
  note 5 = enum_field_closed [OF p(2) a p(3) t(4), of s X d w]
  show "\<forall>(c, n, e)\<in>set enum_fields.
      (s \<notin> member_value ` set (members e) \<longrightarrow>
         raises (model_validate X c (d(n \<mapsto> VStr s)) w) n enum_error) \<and>
      (\<forall>m\<in>set (members e). others_accepted X c d n \<longrightarrow>
         returns (model_validate X c (d(n \<mapsto> VStr (member_value m))) w) n (VEnum m)) \<and>
      returns (init X c (d(n \<mapsto> VStr s)) w) n (VStr s)"
    unfolding enum_fields_list ball_set_Cons ball_set_Nil prod.case
    by (intro conjI 1 2 3 4 5 TrueI)
qed

text \<open>
  The theorem for a vehicle of registration AB-1 and capacity 2: the type boat is
  rejected, the type ship is accepted as the member SHIP.
\<close>

theorem enum_fields_closed_witness:
  "raises (model_validate lib0 Vehicle
       [''registration_number'' \<mapsto> VStr ''AB-1'', ''capacity'' \<mapsto> VFloat 2,
        ''type'' \<mapsto> VStr ''boat''] world0) ''type'' enum_error \<and>
   returns (model_validate lib0 Vehicle
       [''registration_number'' \<mapsto> VStr ''AB-1'', ''capacity'' \<mapsto> VFloat 2,
        ''type'' \<mapsto> VStr ''ship''] world0) ''type'' (VEnum (EVehicleType SHIP))"
  using enum_fields_closed [of "''boat''" lib0
      "[''registration_number'' \<mapsto> VStr ''AB-1'', ''capacity'' \<mapsto> VFloat 2]" world0]
  by (simp add: enum_fields_list Vehicle_def others_accepted_def accepts_def
      validate_value_def Field_def lib0_def check_length_def check_bounds_def)

text \<open>
  The claim as stated fails: constructing a Vehicle with the type boat, which is no
  member of VehicleType, returns the instance.
\<close>

theorem vehicle_type_counterexample:
  "fst (init lib0 Vehicle
       [''registration_number'' \<mapsto> VStr ''AB-1'', ''capacity'' \<mapsto> VFloat 2,
        ''type'' \<mapsto> VStr ''boat''] world0)
     = Inr [(''id'', VUUID 0), (''type'', VStr ''boat''), (''registration_number'', VStr ''AB-1''),
            (''capacity'', VFloat 2), (''current_location'', VNone),
            (''is_available'', VBool True), (''created_at'', VDatetime 1000),
            (''updated_at'', VDatetime 1001)] \<and>
   enum_lookup VehicleType ''boat'' = None"
  by (simp add: Vehicle_def eval_defs)

text \<open>
  C6 (as amended). Validating Feedback data (\<open>model_validate\<close>) with a rating less
  than 1 or greater than 5 fails with a ValidationError, and every integer rating from 1
  through 5 is accepted when the other fields are. Feedback is a table class:
  constructing it validates nothing and stores the rating it is given.
\<close>

theorem feedback_rating_bounds:
  "(r < 1 \<longrightarrow>
      raises (model_validate X Feedback (d(''rating'' \<mapsto> VInt r)) w) ''rating'' greater_than_equal) \<and>
   (5 < r \<longrightarrow>
      raises (model_validate X Feedback (d(''rating'' \<mapsto> VInt r)) w) ''rating'' less_than_equal) \<and>
   (1 \<le> r \<and> r \<le> 5 \<and> others_accepted X Feedback d ''rating'' \<longrightarrow>
      returns (model_validate X Feedback (d(''rating'' \<mapsto> VInt r)) w) ''rating'' (VInt r)) \<and>
   returns (init X Feedback (d(''rating'' \<mapsto> VInt r)) w) ''rating'' (VInt r)"
proof -
  let ?f = "(Field TInt)\<lparr>ge := Some 1, le := Some 5\<rparr>"
  let ?d = "d(''rating'' \<mapsto> VInt r)"
  have f: "(''rating'', ?f) \<in> set (model_fields Feedback)"
    by (simp add: Feedback_def)
  have dist: "distinct (map fst (model_fields Feedback))" by (simp add: Feedback_def)
  have tb: "table Feedback" by (simp add: Feedback_def)
  have v: "validate_value X ?f (VInt r) = check_bounds ?f (of_int r) (VInt r)"
    by (rule validate_value_int) (simp add: Field_def)
  have r: "?d ''rating'' = Some (VInt r)" by simp
  have 1: "raises (model_validate X Feedback ?d w) ''rating'' greater_than_equal" if "r < 1"
    using that
    by (intro raises_supplied [where d = ?d, OF f r]) (simp only: v, auto simp add: check_bounds_def)
  have 2: "raises (model_validate X Feedback ?d w) ''rating'' less_than_equal" if "5 < r"
    using that
    by (intro raises_supplied [where d = ?d, OF f r]) (simp only: v, auto simp add: check_bounds_def)
  have 3: "returns (model_validate X Feedback ?d w) ''rating'' (VInt r)"
    if "1 \<le> r" "r \<le> 5" "others_accepted X Feedback d ''rating''"
  proof (rule returns_supplied [where d = ?d, OF dist f r])
    show "validate_value X ?f (VInt r) = Inr (VInt r)"
      using that by (simp only: v, auto simp add: check_bounds_def)
    show "others_accepted X Feedback ?d ''rating''"
      using that(3) by (simp only: others_accepted_upd)
  qed
  have 4: "returns (init X Feedback ?d w) ''rating'' (VInt r)"
    by (rule returns_table_supplied [where d = ?d, OF tb dist f r])
  from 1 2 3 4 show ?thesis by blast
qed

text \<open>The theorem at the ratings 0, 6, 1 and 5 for the order 1.\<close>

theorem feedback_rating_bounds_witness:
  "raises (model_validate lib0 Feedback [''order_id'' \<mapsto> VUUID 1, ''rating'' \<mapsto> VInt 0] world0)
     ''rating'' greater_than_equal \<and>
   raises (model_validate lib0 Feedback [''order_id'' \<mapsto> VUUID 1, ''rating'' \<mapsto> VInt 6] world0)
     ''rating'' less_than_equal \<and>
   returns (model_validate lib0 Feedback [''order_id'' \<mapsto> VUUID 1, ''rating'' \<mapsto> VInt 1] world0)
     ''rating'' (VInt 1) \<and>
   returns (model_validate lib0 Feedback [''order_id'' \<mapsto> VUUID 1, ''rating'' \<mapsto> VInt 5] world0)
     ''rating'' (VInt 5)"
  using feedback_rating_bounds [of 0 lib0 "[''order_id'' \<mapsto> VUUID 1]" world0]
    feedback_rating_bounds [of 6 lib0 "[''order_id'' \<mapsto> VUUID 1]" world0]
    feedback_rating_bounds [of 1 lib0 "[''order_id'' \<mapsto> VUUID 1]" world0]
    feedback_rating_bounds [of 5 lib0 "[''order_id'' \<mapsto> VUUID 1]" world0]
  by (simp add: Feedback_def others_accepted_def accepts_def validate_value_def Field_def
      lib0_def)

text \<open>
  The claim as stated fails: constructing a Feedback with the rating 0 returns the
  instance.
\<close>

theorem feedback_rating_counterexample:
  "fst (init lib0 Feedback [''order_id'' \<mapsto> VUUID 1, ''rating'' \<mapsto> VInt 0] world0)
     = Inr [(''id'', VUUID 0), (''order_id'', VUUID 1), (''rating'', VInt 0),
            (''comment'', VNone), (''created_at'', VDatetime 1000)]"
  by (simp add: Feedback_def eval_defs)

text \<open>
  C7 (as amended). Validating Promotion data (\<open>model_validate\<close>) with a
  discount_percentage below 0 or above 100 (so -1 and 101), given as a float or as an
  int, fails with a ValidationError, and every value from 0 through 100, the bounds
  included, is accepted when the other fields are, an int as the float of the same
  value. Promotion is a table class: constructing it validates nothing and stores the
  discount_percentage it is given.
\<close>

theorem promotion_discount_bounds:
  "(x < 0 \<longrightarrow>
      raises (model_validate X Promotion (d(''discount_percentage'' \<mapsto> VFloat x)) w)
        ''discount_percentage'' greater_than_equal) \<and>
   (100 < x \<longrightarrow>
      raises (model_validate X Promotion (d(''discount_percentage'' \<mapsto> VFloat x)) w)
        ''discount_percentage'' less_than_equal) \<and>
   (0 \<le> x \<and> x \<le> 100 \<and> others_accepted X Promotion d ''discount_percentage'' \<longrightarrow>
      returns (model_validate X Promotion (d(''discount_percentage'' \<mapsto> VFloat x)) w)
        ''discount_percentage'' (VFloat x)) \<and>
   returns (init X Promotion (d(''discount_percentage'' \<mapsto> VFloat x)) w)
     ''discount_percentage'' (VFloat x) \<and>
   (i < 0 \<longrightarrow>
      raises (model_validate X Promotion (d(''discount_percentage'' \<mapsto> VInt i)) w)
        ''discount_percentage'' greater_than_equal) \<and>
   (100 < i \<longrightarrow>
      raises (model_validate X Promotion (d(''discount_percentage'' \<mapsto> VInt i)) w)
        ''discount_percentage'' less_than_equal) \<and>
   (0 \<le> i \<and> i \<le> 100 \<and> others_accepted X Promotion d ''discount_percentage'' \<longrightarrow>
      returns (model_validate X Promotion (d(''discount_percentage'' \<mapsto> VInt i)) w)
        ''discount_percentage'' (VFloat (of_int i))) \<and>
   returns (init X Promotion (d(''discount_percentage'' \<mapsto> VInt i)) w)
     ''discount_percentage'' (VInt i)"
proof -
  let ?f = "(Field TFloat)\<lparr>ge := Some 0, le := Some 100\<rparr>"
  let ?d = "d(''discount_percentage'' \<mapsto> VFloat x)"
  let ?e = "d(''discount_percentage'' \<mapsto> VInt i)"
  let ?n = "''discount_percentage''"
  have f: "(?n, ?f) \<in> set (model_fields Promotion)"
    by (simp add: Promotion_def)
  have dist: "distinct (map fst (model_fields Promotion))" by (simp add: Promotion_def)
  have tb: "table Promotion" by (simp add: Promotion_def)
  have v: "validate_value X ?f (VFloat x) = check_bounds ?f x (VFloat x)"
    by (rule validate_value_float) (simp add: Field_def)
  have u: "validate_value X ?f (VInt i) = check_bounds ?f (of_int i) (VFloat (of_int i))"
    by (rule validate_value_int_as_float) (simp add: Field_def)
  have x: "?d ?n = Some (VFloat x)" by simp
  have i: "?e ?n = Some (VInt i)" by simp
  have 1: "raises (model_validate X Promotion ?d w) ?n greater_than_equal" if "x < 0"
    using that
    by (intro raises_supplied [where d = ?d, OF f x]) (simp only: v, auto simp add: check_bounds_def)
  have 2: "raises (model_validate X Promotion ?d w) ?n less_than_equal" if "100 < x"
    using that
    by (intro raises_supplied [where d = ?d, OF f x]) (simp only: v, auto simp add: check_bounds_def)
  have 3: "returns (model_validate X Promotion ?d w) ?n (VFloat x)"
    if "0 \<le> x" "x \<le> 100" "others_accepted X Promotion d ?n"
  proof (rule returns_supplied [where d = ?d, OF dist f x])
    show "validate_value X ?f (VFloat x) = Inr (VFloat x)"
      using that by (simp only: v, auto simp add: check_bounds_def)
    show "others_accepted X Promotion ?d ?n"
      using that(3) by (simp only: others_accepted_upd)
  qed
  have 4: "returns (init X Promotion ?d w) ?n (VFloat x)"
    by (rule returns_table_supplied [where d = ?d, OF tb dist f x])
  have 5: "raises (model_validate X Promotion ?e w) ?n greater_than_equal" if "i < 0"
    using that
    by (intro raises_supplied [where d = ?e, OF f i]) (simp only: u, auto simp add: check_bounds_def)
  have 6: "raises (model_validate X Promotion ?e w) ?n less_than_equal" if "100 < i"
    using that
    by (intro raises_supplied [where d = ?e, OF f i]) (simp only: u, auto simp add: check_bounds_def)
  have 7: "returns (model_validate X Promotion ?e w) ?n (VFloat (of_int i))"
    if "0 \<le> i" "i \<le> 100" "others_accepted X Promotion d ?n"
  proof (rule returns_supplied [where d = ?e, OF dist f i])
    show "validate_value X ?f (VInt i) = Inr (VFloat (of_int i))"
      using that by (simp only: u, auto simp add: check_bounds_def)
    show "others_accepted X Promotion ?e ?n"
      using that(3) by (simp only: others_accepted_upd)
  qed
  have 8: "returns (init X Promotion ?e w) ?n (VInt i)"
    by (rule returns_table_supplied [where d = ?e, OF tb dist f i])
  from 1 2 3 4 5 6 7 8 show ?thesis by blast
qed

text \<open>The theorem at the values -1, 101, 0 and 100, as floats and as ints.\<close>

theorem promotion_discount_bounds_witness:
  "raises (model_validate lib0 Promotion
       [''code'' \<mapsto> VStr ''SPRING'', ''expiry_date'' \<mapsto> VDatetime 5,
        ''discount_percentage'' \<mapsto> VFloat (- 1)] world0)
     ''discount_percentage'' greater_than_equal \<and>
   raises (model_validate lib0 Promotion
       [''code'' \<mapsto> VStr ''SPRING'', ''expiry_date'' \<mapsto> VDatetime 5,
        ''discount_percentage'' \<mapsto> VFloat 101] world0)
     ''discount_percentage'' less_than_equal \<and>
   returns (model_validate lib0 Promotion
       [''code'' \<mapsto> VStr ''SPRING'', ''expiry_date'' \<mapsto> VDatetime 5,
        ''discount_percentage'' \<mapsto> VFloat 0] world0)
     ''discount_percentage'' (VFloat 0) \<and>
   returns (model_validate lib0 Promotion
       [''code'' \<mapsto> VStr ''SPRING'', ''expiry_date'' \<mapsto> VDatetime 5,
        ''discount_percentage'' \<mapsto> VFloat 100] world0)
     ''discount_percentage'' (VFloat 100) \<and>
   raises (model_validate lib0 Promotion
       [''code'' \<mapsto> VStr ''SPRING'', ''expiry_date'' \<mapsto> VDatetime 5,
        ''discount_percentage'' \<mapsto> VInt (- 1)] world0)
     ''discount_percentage'' greater_than_equal \<and>
   raises (model_validate lib0 Promotion
       [''code'' \<mapsto> VStr ''SPRING'', ''expiry_date'' \<mapsto> VDatetime 5,
        ''discount_percentage'' \<mapsto> VInt 101] world0)
     ''discount_percentage'' less_than_equal \<and>
   returns (model_validate lib0 Promotion
       [''code'' \<mapsto> VStr ''SPRING'', ''expiry_date'' \<mapsto> VDatetime 5,
        ''discount_percentage'' \<mapsto> VInt 0] world0)
     ''discount_percentage'' (VFloat 0) \<and>
   returns (model_validate lib0 Promotion
       [''code'' \<mapsto> VStr ''SPRING'', ''expiry_date'' \<mapsto> VDatetime 5,
        ''discount_percentage'' \<mapsto> VInt 100] world0)
     ''discount_percentage'' (VFloat 100)"
  using promotion_discount_bounds [of "- 1" lib0
      "[''code'' \<mapsto> VStr ''SPRING'', ''expiry_date'' \<mapsto> VDatetime 5]" world0 "- 1"]
    promotion_discount_bounds [of 101 lib0
      "[''code'' \<mapsto> VStr ''SPRING'', ''expiry_date'' \<mapsto> VDatetime 5]" world0 101]
    promotion_discount_bounds [of 0 lib0
      "[''code'' \<mapsto> VStr ''SPRING'', ''expiry_date'' \<mapsto> VDatetime 5]" world0 0]
    promotion_discount_bounds [of 100 lib0
      "[''code'' \<mapsto> VStr ''SPRING'', ''expiry_date'' \<mapsto> VDatetime 5]" world0 100]
  by (simp add: Promotion_def others_accepted_def accepts_def validate_value_def Field_def
      lib0_def check_length_def)

text \<open>
  The claim as stated fails: constructing a Promotion with the discount_percentage 101,
  as a float or as an int, returns the instance.
\<close>

theorem promotion_discount_counterexample:
  "fst (init lib0 Promotion
       [''code'' \<mapsto> VStr ''SPRING'', ''expiry_date'' \<mapsto> VDatetime 5,
        ''discount_percentage'' \<mapsto> VFloat 101] world0)
     = Inr [(''id'', VUUID 0), (''code'', VStr ''SPRING''), (''discount_percentage'', VFloat 101),
            (''expiry_date'', VDatetime 5), (''applicable_countries'', VNone),
            (''created_at'', VDatetime 1000), (''updated_at'', VDatetime 1001)] \<and>
   fst (init lib0 Promotion
       [''code'' \<mapsto> VStr ''SPRING'', ''expiry_date'' \<mapsto> VDatetime 5,
        ''discount_percentage'' \<mapsto> VInt 101] world0)
     = Inr [(''id'', VUUID 0), (''code'', VStr ''SPRING''), (''discount_percentage'', VInt 101),
            (''expiry_date'', VDatetime 5), (''applicable_countries'', VNone),
            (''created_at'', VDatetime 1000), (''updated_at'', VDatetime 1001)]"
  by (simp add: Promotion_def eval_defs)

text \<open>
  C8. Constructing an ItemUpdate from an empty partial object (no field supplied)
  succeeds, both fields being None; constructing an ItemUpdate whose title is the empty
  string fails with a ValidationError (string too short: the minimum length is 1),
  whatever else is supplied.
\<close>

theorem item_update_partial:
  "fst (init X ItemUpdate Map.empty w) = Inr [(''title'', VNone), (''description'', VNone)] \<and>
   raises (init X ItemUpdate (d(''title'' \<mapsto> VStr '''')) w) ''title'' string_too_short"
proof
  have nt: "\<not> table ItemUpdate" by (simp add: ItemUpdate_def)
  show "fst (init X ItemUpdate Map.empty w) = Inr [(''title'', VNone), (''description'', VNone)]"
    unfolding init_not_table [OF nt]
    by (simp add: model_validate_def ItemUpdate_fields validate_field_def)
next
  let ?f = "(Field TStr)\<lparr>optional := True, default := Default VNone,
         min_length := Some 1, max_length := Some 255\<rparr>"
  have f: "(''title'', ?f) \<in> set (model_fields ItemUpdate)"
    by (simp add: ItemUpdate_fields)
  have nt: "\<not> table ItemUpdate" by (simp add: ItemUpdate_def)
  have v: "validate_value X ?f (VStr '''') = check_length ?f ''''"
    by (rule validate_value_str) (simp add: Field_def)
  show "raises (init X ItemUpdate (d(''title'' \<mapsto> VStr '''')) w) ''title'' string_too_short"
    unfolding init_not_table [OF nt]
    by (rule raises_supplied [where d = "d(''title'' \<mapsto> VStr '''')", OF f])
       (simp, simp only: v, simp add: check_length_def)
qed

text \<open>The theorem with nothing supplied, and with only the empty title.\<close>

theorem item_update_partial_witness:
  "fst (init lib0 ItemUpdate Map.empty world0) = Inr [(''title'', VNone), (''description'', VNone)] \<and>
   raises (init lib0 ItemUpdate [''title'' \<mapsto> VStr ''''] world0) ''title'' string_too_short"
  using item_update_partial [of lib0 world0 Map.empty] by simp

text \<open>
  C9. Constructing a UserCreate requires a password: without one it fails with a
  ValidationError (missing). A password shorter than 8 characters or longer than 40
  fails with a ValidationError, and any password of length 8 through 40 is accepted when
  the other fields are.
\<close>

theorem user_create_password:
  "raises (init X UserCreate (d(''password'' := None)) w) ''password'' missing \<and>
   (length p < 8 \<longrightarrow>
      raises (init X UserCreate (d(''password'' \<mapsto> VStr p)) w) ''password'' string_too_short) \<and>
   (40 < length p \<longrightarrow>
      raises (init X UserCreate (d(''password'' \<mapsto> VStr p)) w) ''password'' string_too_long) \<and>
   (8 \<le> length p \<and> length p \<le> 40 \<and> others_accepted X UserCreate d ''password'' \<longrightarrow>
      returns (init X UserCreate (d(''password'' \<mapsto> VStr p)) w) ''password'' (VStr p))"
proof -
  let ?f = "(Field TStr)\<lparr>min_length := Some 8, max_length := Some 40\<rparr>"
  let ?d = "d(''password'' \<mapsto> VStr p)"
  have f: "(''password'', ?f) \<in> set (model_fields UserCreate)"
    by (simp add: UserCreate_fields)
  have dist: "distinct (map fst (model_fields UserCreate))" by (simp add: UserCreate_fields)
  have nt: "\<not> table UserCreate" by (simp add: UserCreate_def)
  have v: "validate_value X ?f (VStr p) = check_length ?f p"
    by (rule validate_value_str) (simp add: Field_def)
  have p: "?d ''password'' = Some (VStr p)" by simp
  have 1: "raises (init X UserCreate (d(''password'' := None)) w) ''password'' missing"
    unfolding init_not_table [OF nt]
    by (rule raises_missing [where d = "d(''password'' := None)", OF f]) (simp_all add: Field_def)
  have 2: "raises (init X UserCreate ?d w) ''password'' string_too_short" if "length p < 8"
    unfolding init_not_table [OF nt]
    using that
    by (intro raises_supplied [where d = ?d, OF f p]) (simp only: v, auto simp add: check_length_def)
  have 3: "raises (init X UserCreate ?d w) ''password'' string_too_long" if "40 < length p"
    unfolding init_not_table [OF nt]
    using that
    by (intro raises_supplied [where d = ?d, OF f p]) (simp only: v, auto simp add: check_length_def)
  have 4: "returns (init X UserCreate ?d w) ''password'' (VStr p)"
    if "8 \<le> length p" "length p \<le> 40" "others_accepted X UserCreate d ''password''"
    unfolding init_not_table [OF nt]
  proof (rule returns_supplied [where d = ?d, OF dist f p])
    show "validate_value X ?f (VStr p) = Inr (VStr p)"
      using that by (simp only: v, auto simp add: check_length_def)
    show "others_accepted X UserCreate ?d ''password''"
      using that(3) by (simp only: others_accepted_upd)
  qed
  from 1 2 3 4 show ?thesis by blast
qed

text \<open>
  The theorem for a user with a valid email: no password, a password of 5 characters,
  one of 41 and one of 13.
\<close>

theorem user_create_password_witness:
  "raises (init lib0 UserCreate [''email'' \<mapsto> VStr ''ann@example.com''] world0)
     ''password'' missing \<and>
   raises (init lib0 UserCreate
       [''email'' \<mapsto> VStr ''ann@example.com'', ''password'' \<mapsto> VStr ''short''] world0)
     ''password'' string_too_short \<and>
   raises (init lib0 UserCreate
       [''email'' \<mapsto> VStr ''ann@example.com'', ''password'' \<mapsto> VStr (replicate 41 CHR ''x'')] world0)
     ''password'' string_too_long \<and>
   returns (init lib0 UserCreate
       [''email'' \<mapsto> VStr ''ann@example.com'', ''password'' \<mapsto> VStr ''correct horse''] world0)
     ''password'' (VStr ''correct horse'')"
  using user_create_password [of lib0 "[''email'' \<mapsto> VStr ''ann@example.com'']" world0 "''short''"]
    user_create_password [of lib0 "[''email'' \<mapsto> VStr ''ann@example.com'']" world0
      "replicate 41 CHR ''x''"]
    user_create_password [of lib0 "[''email'' \<mapsto> VStr ''ann@example.com'']" world0
      "''correct horse''"]
  by (simp add: UserCreate_fields others_accepted_def accepts_def validate_value_def Field_def
      lib0_def)



end
